theory Spec2Isabelle
  imports Complex_Main "HOL-Library.Word" "HOL-Library.Option_ord" "HOL-Library.Sublist"
begin

unbundle bit_operations_syntax

section \<open>JavaScript values, errors and truthiness\<close>

text \<open>
  The module \<open>signal-db.js\<close> reads SQL rows and JSON documents, so a value it handles is a
  JavaScript value: \<open>undefined\<close>, \<open>null\<close>, a boolean, a number, a string, an array or an
  object. A string is a list of characters, one \<open>char\<close> for each character of the text.
  The numbers of rows and of JSON documents are restricted to the integers: they are the
  INTEGER columns of a row, tested for being zero and passed to \<open>new Date\<close>. The options
  \<open>limit\<close> and \<open>offset\<close> of the queries are numbers of their own type, \<open>js_number\<close> below.
\<close>

datatype jsval =
    JUndefined
  | JNull
  | JBool bool
  | JNum int
  | JStr string
  | JArr "jsval list"
  | JObj "(string \<times> jsval) list"

text \<open>
  Every \<open>throw\<close> of the module and of the libraries it calls is a value: the constructor
  function of the thrown object (\<open>Error\<close> for every \<open>new Error(...)\<close> of the module itself)
  and its \<open>message\<close>.
\<close>

datatype error_class = Error | TypeError | RangeError | SyntaxError | SqliteError | SystemError

datatype js_error = Exn error_class string

fun error_class_of :: "js_error \<Rightarrow> error_class" where
  "error_class_of (Exn c m) = c"

fun message :: "js_error \<Rightarrow> string" where
  "message (Exn c m) = m"

text \<open>The truthiness test of \<open>if (v)\<close>, \<open>!v\<close>, \<open>v || w\<close> and \<open>v ? a : b\<close>.\<close>

fun truthy :: "jsval \<Rightarrow> bool" where
  "truthy JUndefined = False"
| "truthy JNull = False"
| "truthy (JBool b) = b"
| "truthy (JNum n) = (n \<noteq> 0)"
| "truthy (JStr s) = (s \<noteq> [])"
| "truthy (JArr vs) = True"
| "truthy (JObj kvs) = True"

definition js_or :: "jsval \<Rightarrow> jsval \<Rightarrow> jsval" where
  "js_or a b = (if truthy a then a else b)"

text \<open>
  A property read \<open>v.name\<close>. On \<open>null\<close> and \<open>undefined\<close> it throws a \<open>TypeError\<close> whose
  message names the value and the property; on an object it is the property's value or
  \<open>undefined\<close>; on any other value it is \<open>undefined\<close> (none of the names the module reads is
  a built-in property of a string, number, boolean or array).
\<close>

definition cannot_read :: "string \<Rightarrow> string \<Rightarrow> js_error" where
  "cannot_read v k =
     Exn TypeError (''Cannot read properties of '' @ v @ '' (reading '' @ [CHR 0x27] @ k @
                    [CHR 0x27] @ '')'')"

fun get_prop :: "jsval \<Rightarrow> string \<Rightarrow> js_error + jsval" where
  "get_prop JUndefined k = Inl (cannot_read ''undefined'' k)"
| "get_prop JNull k = Inl (cannot_read ''null'' k)"
| "get_prop (JObj kvs) k = Inr (case map_of kvs k of None \<Rightarrow> JUndefined | Some v \<Rightarrow> v)"
| "get_prop v k = Inr JUndefined"

text \<open>
  The options \<open>limit\<close> and \<open>offset\<close> are JavaScript numbers. A finite number is a rational
  (every double is one); \<open>NaN\<close> and the infinities, which no JSON argument of a request
  can be, are left out. \<open>if (x)\<close> holds of a number that is not zero, and of no absent
  option.
\<close>

type_synonym js_number = rat

definition number_truthy :: "js_number option \<Rightarrow> bool" where
  "number_truthy x = (case x of None \<Rightarrow> False | Some q \<Rightarrow> q \<noteq> 0)"

text \<open>A nullable TEXT column and a nullable INTEGER column, as the row object holds them.\<close>

definition text_col :: "string option \<Rightarrow> jsval" where
  "text_col c = (case c of None \<Rightarrow> JNull | Some s \<Rightarrow> JStr s)"

definition int_col :: "int option \<Rightarrow> jsval" where
  "int_col c = (case c of None \<Rightarrow> JNull | Some n \<Rightarrow> JNum n)"

text \<open>\<open>s.includes(sub)\<close>, here \<open>str_includes\<close>: some suffix of \<open>s\<close> starts with \<open>sub\<close>.\<close>

fun str_includes :: "string \<Rightarrow> string \<Rightarrow> bool" where
  "str_includes [] sub = (sub = [])"
| "str_includes (c # s) sub = (prefix sub (c # s) \<or> str_includes s sub)"

text \<open>Sequencing of steps that may throw, and \<open>xs.map(f)\<close> for an \<open>f\<close> that may throw.\<close>

definition bind_result :: "js_error + 'a \<Rightarrow> ('a \<Rightarrow> js_error + 'b) \<Rightarrow> js_error + 'b" where
  "bind_result r f = (case r of Inl e \<Rightarrow> Inl e | Inr v \<Rightarrow> f v)"

fun map_result :: "('a \<Rightarrow> js_error + 'b) \<Rightarrow> 'a list \<Rightarrow> js_error + 'b list" where
  "map_result f [] = Inr []"
| "map_result f (x # xs) =
     (case f x of
        Inl e \<Rightarrow> Inl e
      | Inr y \<Rightarrow> (case map_result f xs of Inl e \<Rightarrow> Inl e | Inr ys \<Rightarrow> Inr (y # ys)))"

section \<open>Rows of the decrypted database\<close>

record conversation_row =
  c_id :: string
  c_name :: "string option"
  c_profileName :: "string option"
  c_e164 :: "string option"
  c_json :: "string option"

record message_row =
  m_id :: string
  m_conversationId :: "string option"
  m_timestamp :: "int option"
  m_sentAt :: "int option"
  m_source :: "string option"
  m_sourceServiceId :: "string option"
  m_body :: "string option"
  m_json :: "string option"
  m_hasAttachments :: "int option"
  m_type :: "string option"

record item_row =
  i_id :: string
  i_json :: "string option"

record tables =
  conversations :: "conversation_row list"
  messages :: "message_row list"
  items :: "item_row list"

record formatted_message =
  date :: string
  sender :: jsval
  body :: jsval
  quote :: jsval
  sticker :: jsval
  reactions :: jsval
  attachments :: string

section \<open>The platform: file system, process environment, libraries and database engine\<close>

text \<open>
  A connection object of the SQLite binding: the path it was created for and the
  statements run on it so far by \<open>db.pragma(s)\<close> and \<open>db.prepare(s).get()\<close>, oldest first.
\<close>

datatype stmt = Pragma string | Prepare_get string

record handle =
  h_path :: string
  h_log :: "stmt list"

type_synonym byte = "8 word"

text \<open>
  Everything the module obtains from outside itself. The library functions are fields of
  this record, so that a theorem about the module holds for whatever they compute:
  \<^item> \<open>existsSync\<close>, \<open>readFileSync\<close> (with encoding \<open>utf-8\<close>), \<open>path_join\<close>, \<open>homedir\<close>,
    \<open>os_platform\<close>, \<open>execSync\<close> (the standard output of a command) and the two environment
    variables;
  \<^item> \<open>JSON_parse\<close> and \<open>toISOString\<close> (of \<open>new Date(ms)\<close>), which may throw;
  \<^item> \<open>printed_integer\<close>: the integer that the digits of \<open>String(n)\<close> denote, for a whole
    number \<open>n\<close> beyond the safe range (from \<open>2^53\<close> on JavaScript prints the shortest digits
    that read back as the same double, \<open>4611686018427388000\<close> for \<open>2^62\<close>);
  \<^item> the engine: \<open>Database_new\<close> is the error thrown by \<open>new Database(path, {readonly: true})\<close>
    if any, \<open>db_exec\<close> the error thrown by running a pragma or the probe on a connection if
    any, and \<open>db_read\<close> what a query on a connection reads: the tables, or the error the
    engine throws (for instance when the key set on the connection is wrong);
  \<^item> of the \<open>crypto\<close> and \<open>Buffer\<close> modules: \<open>pbkdf2Sync\<close>, the AES-128 decryption of one
    16-byte block, the UTF-8 decoding of \<open>buf.toString("utf-8")\<close>, and \<open>Buffer.from(v, "hex")\<close>
    for a \<open>v\<close> that is not a string.
\<close>

record env =
  existsSync :: "string \<Rightarrow> bool"
  readFileSync :: "string \<Rightarrow> js_error + string"
  path_join :: "string list \<Rightarrow> string"
  homedir :: string
  os_platform :: string
  execSync :: "string \<Rightarrow> js_error + string"
  SIGNAL_SOURCE_DIR :: "string option"
  SIGNAL_KEY :: "string option"
  JSON_parse :: "string \<Rightarrow> js_error + jsval"
  toISOString :: "int \<Rightarrow> js_error + string"
  printed_integer :: "int \<Rightarrow> int"
  Database_new :: "string \<Rightarrow> js_error option"
  db_exec :: "handle \<Rightarrow> stmt \<Rightarrow> js_error option"
  db_read :: "handle \<Rightarrow> js_error + tables"
  pbkdf2Sync :: "string \<Rightarrow> byte list \<Rightarrow> nat \<Rightarrow> nat \<Rightarrow> string \<Rightarrow> byte list"
  aes128_decrypt_block :: "byte list \<Rightarrow> byte list \<Rightarrow> byte list"
  Buffer_toString_utf8 :: "byte list \<Rightarrow> string"
  Buffer_from_nonstring :: "jsval \<Rightarrow> js_error + byte list"

section \<open>formatMessage\<close>

text \<open>
  \<open>formatMessage(msg, contactName)\<close>, with \<open>this.selfServiceId\<close> as the argument \<open>self\<close>.
  The two places where it can throw are kept: \<open>toISOString\<close> (a \<open>RangeError\<close> for a time
  value out of range) and the property reads on \<open>jsonLoaded\<close>, which is \<open>null\<close> when the
  row's JSON text is the document \<open>null\<close>.
\<close>

definition message_date :: "env \<Rightarrow> message_row \<Rightarrow> js_error + string" where
  "message_date E msg =
     (let ts = js_or (int_col (m_sentAt msg)) (int_col (m_timestamp msg)) in
      case ts of JNum n \<Rightarrow> if n \<noteq> 0 then toISOString E n else Inr [] | _ \<Rightarrow> Inr [])"

definition jsonLoaded :: "env \<Rightarrow> message_row \<Rightarrow> jsval" where
  "jsonLoaded E msg =
     (case m_json msg of
        None \<Rightarrow> JObj []
      | Some payload \<Rightarrow>
          if payload = [] then JObj []
          else (case JSON_parse E payload of Inl e \<Rightarrow> JObj [] | Inr v \<Rightarrow> v))"

definition formatMessage :: "env \<Rightarrow> jsval \<Rightarrow> message_row \<Rightarrow> jsval \<Rightarrow> js_error + formatted_message" where
  "formatMessage E self msg contactName =
     bind_result (message_date E msg) (\<lambda>date.
      let isFromSelf = (text_col (m_sourceServiceId msg) = self \<or> m_type msg = Some ''outgoing'');
          sender = (if isFromSelf then JStr ''Me'' else contactName);
          jsonLoaded = jsonLoaded E msg
      in
      bind_result (get_prop jsonLoaded ''reactions'') (\<lambda>r.
      let reactions = (if truthy r then r else JArr []) in
      bind_result (get_prop jsonLoaded ''quote'') (\<lambda>q.
      bind_result (if truthy q
                   then bind_result (get_prop q ''text'') (\<lambda>t. Inr (js_or t (JStr [])))
                   else Inr (JStr [])) (\<lambda>quote.
      bind_result (get_prop jsonLoaded ''sticker'') (\<lambda>st.
      bind_result (if truthy st
                   then bind_result (get_prop st ''emoji'') (\<lambda>em.
                        bind_result (get_prop st ''packId'') (\<lambda>pk.
                        Inr (js_or em (js_or pk (JStr [])))))
                   else Inr (JStr [])) (\<lambda>sticker.
      Inr \<lparr> date = date,
            sender = sender,
            body = js_or (text_col (m_body msg)) (JStr []),
            quote = quote,
            sticker = sticker,
            reactions = reactions,
            attachments = (if truthy (int_col (m_hasAttachments msg)) then ''yes'' else []) \<rparr>))))))"

section \<open>Queries of the engine\<close>

text \<open>
  \<open>ORDER BY timestamp DESC\<close>: rows in non-increasing order of the timestamp column, a NULL
  timestamp after every other (SQLite orders NULL below every value; \<open>None\<close> is the least
  element of the order on \<open>int option\<close>). SQL leaves the order of rows with equal timestamps
  open; here they keep their storage order.
\<close>

definition order_by_timestamp_desc :: "message_row list \<Rightarrow> message_row list" where
  "order_by_timestamp_desc rows = rev (sort_key m_timestamp (rev rows))"

text \<open>
  \<open>LIMIT l OFFSET o\<close> of SQLite on integers: a negative offset is no offset, a negative limit
  is no limit.
\<close>

definition sql_limit :: "int \<Rightarrow> int \<Rightarrow> 'a list \<Rightarrow> 'a list" where
  "sql_limit l off rows =
     (let rest = drop (nat off) rows in if l < 0 then rest else take (nat l) rest)"

text \<open>
  The operand of \<open>LIMIT\<close> or \<open>OFFSET\<close> that the engine reads from the text \<open>${x}\<close> of a
  number \<open>x\<close>. The engine takes a signed 64-bit integer there and throws
  \<open>datatype mismatch\<close> for anything else, when the statement is run and before any row is
  read. JavaScript prints a number that is not whole with a fraction or an exponent, a
  whole number below \<open>2^53\<close> in magnitude by its exact digits, and a whole number from
  \<open>2^63\<close> on by digits or an exponent that denote a value outside the 64-bit range; in
  between, the digits are those of \<open>printed_integer\<close>.
\<close>

definition datatype_mismatch :: js_error where
  "datatype_mismatch = Exn SqliteError ''datatype mismatch''"

definition sql_integer :: "env \<Rightarrow> js_number \<Rightarrow> js_error + int" where
  "sql_integer E x =
     (let n = \<lfloor>x\<rfloor> in
      if of_int n \<noteq> x then Inl datatype_mismatch
      else if \<bar>n\<bar> < 2 ^ 53 then Inr n
      else if 2 ^ 63 \<le> \<bar>n\<bar> then Inl datatype_mismatch
      else (let m = printed_integer E n in
            if - (2 ^ 63) \<le> m \<and> m < 2 ^ 63 then Inr m else Inl datatype_mismatch))"

text \<open>
  The \<open>LIKE\<close> operator of SQLite without an \<open>ESCAPE\<close> clause: in the pattern \<open>%\<close> stands for
  any run of characters, \<open>_\<close> for any one character, and every other character for itself,
  where the letters A to Z of ASCII equal their lower-case forms. The engine reads the
  pattern and the text as C strings, each up to its first NUL character (\<open>c_string\<close>), and
  it refuses, each time the operator is applied to a row, a pattern of more than
  \<open>SQLITE_MAX_LIKE_PATTERN_LENGTH\<close> bytes of UTF-8, NUL and what follows it counted (50000
  bytes, the value of the engine's build); a character below 128 is one byte of UTF-8,
  any other \<open>char\<close> two.
\<close>

definition c_string :: "string \<Rightarrow> string" where
  "c_string s = takeWhile (\<lambda>c. c \<noteq> CHR 0x00) s"

definition utf8_length :: "string \<Rightarrow> int" where
  "utf8_length s = sum_list (map (\<lambda>c. if (of_char c :: nat) < 128 then 1 else 2) s)"

definition SQLITE_MAX_LIKE_PATTERN_LENGTH :: int where
  "SQLITE_MAX_LIKE_PATTERN_LENGTH = 50000"

definition pattern_too_complex :: js_error where
  "pattern_too_complex = Exn SqliteError ''LIKE or GLOB pattern too complex''"

definition ascii_lower :: "char \<Rightarrow> char" where
  "ascii_lower c =
     (let n = (of_char c :: nat) in if 65 \<le> n \<and> n \<le> 90 then char_of (n + 32) else c)"

fun sqlite_like :: "string \<Rightarrow> string \<Rightarrow> bool" where
  "sqlite_like [] s = (s = [])"
| "sqlite_like (p # ps) [] = (p = CHR ''%'' \<and> sqlite_like ps [])"
| "sqlite_like (p # ps) (c # cs) =
     (if p = CHR ''%'' then sqlite_like ps (c # cs) \<or> sqlite_like (p # ps) cs
      else if p = CHR ''_'' then sqlite_like ps cs
      else ascii_lower p = ascii_lower c \<and> sqlite_like ps cs)"

text \<open>
  \<open>SELECT ... FROM conversations WHERE name = ? OR profileName = ? LIMIT 1\<close>, run with
  \<open>get(chatName, chatName)\<close>: the first matching row in storage order, if any. A NULL
  column equals nothing.
\<close>

definition select_conversation :: "tables \<Rightarrow> string \<Rightarrow> conversation_row option" where
  "select_conversation t chatName =
     find (\<lambda>c. c_name c = Some chatName \<or> c_profileName c = Some chatName) (conversations t)"

text \<open>\<open>SELECT ... FROM messages WHERE conversationId = ? ORDER BY timestamp DESC\<close>.\<close>

definition select_messages :: "tables \<Rightarrow> string \<Rightarrow> message_row list" where
  "select_messages t cid =
     order_by_timestamp_desc (filter (\<lambda>m. m_conversationId m = Some cid) (messages t))"

text \<open>
  The same with \<open>AND body LIKE ?\<close>. A NULL body matches no pattern. The operator is applied
  to the rows of the conversation, the NULL bodies among them, so a pattern that is too
  long is refused as soon as the conversation has a row.
\<close>

definition body_like :: "string \<Rightarrow> message_row \<Rightarrow> bool" where
  "body_like pat m =
     (case m_body m of None \<Rightarrow> False | Some b \<Rightarrow> sqlite_like (c_string pat) (c_string b))"

definition select_messages_like :: "tables \<Rightarrow> string \<Rightarrow> string \<Rightarrow> js_error + message_row list" where
  "select_messages_like t cid pat =
     (let rows = filter (\<lambda>m. m_conversationId m = Some cid) (messages t) in
      if rows \<noteq> [] \<and> SQLITE_MAX_LIKE_PATTERN_LENGTH < utf8_length pat
      then Inl pattern_too_complex
      else Inr (order_by_timestamp_desc (filter (body_like pat) rows)))"

text \<open>\<open>SELECT json FROM items WHERE id = 'uuid_id'\<close>, run with \<open>get()\<close>.\<close>

definition select_uuid_item :: "tables \<Rightarrow> item_row option" where
  "select_uuid_item t = find (\<lambda>r. i_id r = ''uuid_id'') (items t)"

section \<open>decryptKey\<close>

text \<open>
  \<open>Buffer.from(s, "hex")\<close> of a string: two hexadecimal digits of either case make a byte;
  decoding stops at the first pair that is not two hexadecimal digits, and a last single
  character is dropped.
\<close>

definition hex_value :: "char \<Rightarrow> nat option" where
  "hex_value c =
     (let n = (of_char c :: nat) in
      if 48 \<le> n \<and> n \<le> 57 then Some (n - 48)
      else if 97 \<le> n \<and> n \<le> 102 then Some (n - 87)
      else if 65 \<le> n \<and> n \<le> 70 then Some (n - 55)
      else None)"

fun hex_decode :: "string \<Rightarrow> byte list" where
  "hex_decode (a # b # rest) =
     (case hex_value a of
        None \<Rightarrow> []
      | Some x \<Rightarrow> (case hex_value b of
                    None \<Rightarrow> []
                  | Some y \<Rightarrow> word_of_nat (16 * x + y) # hex_decode rest))"
| "hex_decode s = []"

definition Buffer_from_hex :: "env \<Rightarrow> jsval \<Rightarrow> js_error + byte list" where
  "Buffer_from_hex E v = (case v of JStr s \<Rightarrow> Inr (hex_decode s) | _ \<Rightarrow> Buffer_from_nonstring E v)"

text \<open>\<open>Buffer.from(s)\<close> of a string literal of the module, all of whose characters are ASCII.\<close>

definition ascii_bytes :: "string \<Rightarrow> byte list" where
  "ascii_bytes s = map (\<lambda>c. word_of_nat (of_char c)) s"

text \<open>
  The decipher object of \<open>createDecipheriv("aes-128-cbc", key, iv)\<close> with its default
  automatic padding, fed the whole ciphertext by \<open>update\<close> and closed by \<open>final\<close>: cipher
  block chaining over the block decryption of the platform, then removal of the PKCS#7
  padding. It throws for a key that is not 16 bytes long, for a ciphertext that is empty
  or not a whole number of blocks, and for a malformed padding.
\<close>

function blocks16 :: "byte list \<Rightarrow> byte list list" where
  "blocks16 bs = (if bs = [] then [] else take 16 bs # blocks16 (drop 16 bs))"
  by pat_completeness auto
termination
  by (relation "measure length") auto

declare blocks16.simps [simp del]

definition xor_bytes :: "byte list \<Rightarrow> byte list \<Rightarrow> byte list" where
  "xor_bytes a b = map2 (XOR) a b"

fun cbc_decrypt :: "(byte list \<Rightarrow> byte list) \<Rightarrow> byte list \<Rightarrow> byte list list \<Rightarrow> byte list" where
  "cbc_decrypt D prev [] = []"
| "cbc_decrypt D prev (c # cs) = xor_bytes (D c) prev @ cbc_decrypt D c cs"

definition pkcs7_unpad :: "byte list \<Rightarrow> js_error + byte list" where
  "pkcs7_unpad p =
     (if p = [] then Inl (Exn Error ''bad decrypt'')
      else let n = unat (last p) in
        if n = 0 \<or> 16 < n \<or> length p < n \<or> drop (length p - n) p \<noteq> replicate n (last p)
        then Inl (Exn Error ''bad decrypt'')
        else Inr (take (length p - n) p))"

definition aes_128_cbc_decipher :: "env \<Rightarrow> byte list \<Rightarrow> byte list \<Rightarrow> byte list \<Rightarrow> js_error + byte list" where
  "aes_128_cbc_decipher E key iv ciphertext =
     (if length key \<noteq> 16 then Inl (Exn RangeError ''Invalid key length'')
      else if ciphertext = [] \<or> length ciphertext mod 16 \<noteq> 0
      then Inl (Exn Error ''wrong final block length'')
      else pkcs7_unpad (cbc_decrypt (aes128_decrypt_block E key) iv (blocks16 ciphertext)))"

definition decryptKey :: "env \<Rightarrow> string \<Rightarrow> jsval \<Rightarrow> js_error + string" where
  "decryptKey E password encryptedKeyHex =
     bind_result (Buffer_from_hex E encryptedKeyHex) (\<lambda>encryptedKey.
       let prefix = ascii_bytes ''v10'' in
       if take 3 encryptedKey \<noteq> prefix
       then Inl (Exn Error ''Encrypted key does not start with v10'')
       else
         let ciphertext = drop 3 encryptedKey;
             salt = ascii_bytes ''saltysalt'';
             iterations = 1003;
             key = pbkdf2Sync E password salt iterations 16 ''sha1'';
             iv = replicate 16 (0x20 :: byte)
         in bind_result (aes_128_cbc_decipher E key iv ciphertext)
              (\<lambda>decrypted. Inr (Buffer_toString_utf8 E decrypted)))"

section \<open>getEncryptionKey\<close>

text \<open>\<open>s.trim()\<close>: the white space of the Latin-1 range is removed at both ends.\<close>

definition js_space :: "char \<Rightarrow> bool" where
  "js_space c = ((of_char c :: nat) \<in> {9, 10, 11, 12, 13, 32, 160})"

definition js_trim :: "string \<Rightarrow> string" where
  "js_trim s = rev (dropWhile js_space (rev (dropWhile js_space s)))"

definition opt_str :: "string option \<Rightarrow> jsval" where
  "opt_str a = (case a of None \<Rightarrow> JUndefined | Some s \<Rightarrow> JStr s)"

definition keychain_command :: string where
  "keychain_command =
     ''security find-generic-password -ws '' @ [CHR 0x22] @ ''Signal Safe Storage'' @ [CHR 0x22]"

definition keychain_error :: js_error where
  "keychain_error =
     Exn Error
       (''Cannot access macOS Keychain to retrieve Signal encryption key. '' @
        ''This often happens in sandboxed environments. '' @
        ''To fix this, run the following command in Terminal to get your key:'' @
        [CHR 0x0A, CHR 0x0A] @ ''  '' @ keychain_command @ [CHR 0x0A, CHR 0x0A] @
        ''Then enter the key in the extension'' @ [CHR 0x27] @ ''s '' @ [CHR 0x22] @
        ''Encryption Key'' @ [CHR 0x22] @ '' setting.'')"

text \<open>
  The \<open>catch (configError)\<close> of the outer \<open>try\<close>: an error whose message mentions the
  Keychain is thrown again, any other is dropped and the function returns \<open>null\<close>.
\<close>

definition config_catch :: "js_error \<Rightarrow> js_error + jsval" where
  "config_catch configError =
     (if str_includes (message configError) ''Keychain'' then Inl configError else Inr JNull)"

definition getEncryptionKey :: "env \<Rightarrow> string \<Rightarrow> jsval \<Rightarrow> js_error + jsval" where
  "getEncryptionKey E sourceDir providedKey =
     (if truthy providedKey then Inr providedKey
      else
        let configPath = path_join E [sourceDir, ''config.json''] in
        if existsSync E configPath then
          (case bind_result (readFileSync E configPath) (JSON_parse E) of
             Inl e \<Rightarrow> config_catch e
           | Inr config \<Rightarrow>
               (case get_prop config ''key'' of
                  Inl e \<Rightarrow> config_catch e
                | Inr k \<Rightarrow>
                    if truthy k then Inr k
                    else
                      (case get_prop config ''encryptedKey'' of
                         Inl e \<Rightarrow> config_catch e
                       | Inr ek \<Rightarrow>
                           if truthy ek \<and> os_platform E = ''darwin'' then
                             (case bind_result (execSync E keychain_command)
                                     (\<lambda>out. decryptKey E (js_trim out) ek) of
                                Inl e \<Rightarrow> config_catch keychain_error
                              | Inr k' \<Rightarrow> Inr (JStr k'))
                           else Inr JNull)))
        else Inr JNull)"

section \<open>The class SignalDatabase\<close>

text \<open>
  The fields of an instance, and beside it the connections to database files that the
  process holds open (one entry, the file's path, for each connection object that was
  created and not yet closed). Of the methods, \<open>listChats\<close> is left out: none of the
  properties below is about it.
\<close>

record signal_database =
  password :: "string option"
  key :: "string option"
  db :: "handle option"
  sourceDir :: string
  selfServiceId :: jsval

record state =
  sdb :: signal_database
  connections :: "string list"

definition getDefaultSignalDir :: "env \<Rightarrow> js_error + string" where
  "getDefaultSignalDir E =
     (let home = homedir E; os = os_platform E in
      if os = ''win32'' then Inr (path_join E [home, ''AppData'', ''Roaming'', ''Signal''])
      else if os = ''darwin''
      then Inr (path_join E [home, ''Library'', ''Application Support'', ''Signal''])
      else if os = ''linux'' then
        (let flatpakPath =
               path_join E [home, ''.var'', ''app'', ''org.signal.Signal'', ''config'', ''Signal'']
         in if existsSync E flatpakPath then Inr flatpakPath
            else Inr (path_join E [home, ''.config'', ''Signal'']))
      else Inl (Exn Error (''Unsupported OS: '' @ os)))"

text \<open>The constructor \<open>new SignalDatabase(sourceDir, password, key)\<close>.\<close>

definition new_SignalDatabase ::
  "env \<Rightarrow> string option \<Rightarrow> string option \<Rightarrow> string option \<Rightarrow> js_error + signal_database" where
  "new_SignalDatabase E sourceDir0 password0 key0 =
     bind_result
       (case js_or (opt_str sourceDir0) (opt_str (SIGNAL_SOURCE_DIR E)) of
          JStr d \<Rightarrow> if d \<noteq> [] then Inr d else getDefaultSignalDir E
        | _ \<Rightarrow> getDefaultSignalDir E)
       (\<lambda>d. Inr \<lparr> password = password0, key = key0, db = None, sourceDir = d,
                   selfServiceId = JNull \<rparr>)"

text \<open>
  The conversion of a value to a string by a template literal, for the key that is
  interpolated into the key pragma.
\<close>

definition digit_char :: "nat \<Rightarrow> char" where
  "digit_char d = char_of (48 + d)"

fun decimal :: "nat \<Rightarrow> string" where
  "decimal n = (if n < 10 then [digit_char n] else decimal (n div 10) @ [digit_char (n mod 10)])"

declare decimal.simps [simp del]

fun intersperse :: "string \<Rightarrow> string list \<Rightarrow> string" where
  "intersperse sep [] = []"
| "intersperse sep [x] = x"
| "intersperse sep (x # y # ys) = x @ sep @ intersperse sep (y # ys)"

fun js_String :: "jsval \<Rightarrow> string" where
  "js_String JUndefined = ''undefined''"
| "js_String JNull = ''null''"
| "js_String (JBool b) = (if b then ''true'' else ''false'')"
| "js_String (JNum n) = (if n < 0 then ''-'' @ decimal (nat (- n)) else decimal (nat n))"
| "js_String (JStr s) = s"
| "js_String (JArr vs) =
     intersperse '',''
       (map (\<lambda>v. if v = JNull \<or> v = JUndefined then [] else js_String v) vs)"
| "js_String (JObj kvs) = ''[object Object]''"

text \<open>
  \<open>loadSelfContact\<close>: everything after the test of \<open>this.db\<close> is inside \<open>try { } catch { }\<close>,
  so each error leaves the instance as it was.
\<close>

definition JSON_parse_col :: "env \<Rightarrow> string option \<Rightarrow> js_error + jsval" where
  "JSON_parse_col E c = (case c of None \<Rightarrow> Inr JNull | Some doc \<Rightarrow> JSON_parse E doc)"

definition loadSelfContact :: "env \<Rightarrow> signal_database \<Rightarrow> signal_database" where
  "loadSelfContact E this =
     (case db this of
        None \<Rightarrow> this
      | Some h \<Rightarrow>
          (case db_read E h of
             Inl e \<Rightarrow> this
           | Inr t \<Rightarrow>
               (case select_uuid_item t of
                  None \<Rightarrow> this
                | Some result \<Rightarrow>
                    (case bind_result (JSON_parse_col E (i_json result))
                            (\<lambda>data. get_prop data ''value'') of
                       Inl e \<Rightarrow> this
                     | Inr v \<Rightarrow> this \<lparr> selfServiceId := js_or v JNull \<rparr>))))"

text \<open>
  \<open>open\<close>, here \<open>open_db\<close>. The statements of its \<open>try\<close> block run in order on the connection that
  \<open>this.db\<close> refers to; the first error ends the block, and the \<open>catch\<close> throws an
  \<open>Error\<close> whose message embeds the caught error's message. The \<open>catch\<close> does not touch
  \<open>this.db\<close>.
\<close>

definition key_pragma :: "jsval \<Rightarrow> stmt" where
  "key_pragma encKey =
     Pragma (''key = '' @ [CHR 0x22, CHR ''x'', CHR 0x27] @ js_String encKey @ [CHR 0x27, CHR 0x22])"

definition open_statements :: "jsval \<Rightarrow> stmt list" where
  "open_statements encKey =
     [key_pragma encKey,
      Pragma ''cipher_page_size = 4096'',
      Pragma ''kdf_iter = 64000'',
      Pragma ''cipher_hmac_algorithm = HMAC_SHA512'',
      Pragma ''cipher_kdf_algorithm = PBKDF2_HMAC_SHA512'',
      Prepare_get ''SELECT 1'']"

fun run_statements :: "env \<Rightarrow> handle \<Rightarrow> stmt list \<Rightarrow> js_error option \<times> handle" where
  "run_statements E h [] = (None, h)"
| "run_statements E h (q # qs) =
     (case db_exec E h q of
        Some e \<Rightarrow> (Some e, h)
      | None \<Rightarrow> run_statements E (h \<lparr> h_log := h_log h @ [q] \<rparr>) qs)"

definition not_found_error :: "string \<Rightarrow> js_error" where
  "not_found_error dbPath = Exn Error (''Signal database not found at: '' @ dbPath)"

definition key_not_found_error :: "string \<Rightarrow> js_error" where
  "key_not_found_error dir =
     Exn Error (''Could not find Signal encryption key. '' @
                ''Make sure config.json exists in '' @ dir @ '' or provide the key manually.'')"

definition open_failed_error :: "js_error \<Rightarrow> js_error" where
  "open_failed_error error =
     Exn Error (''Failed to open Signal database: '' @ message error @ ''. '' @
                ''Make sure Signal Desktop is closed before accessing.'')"

definition open_db :: "env \<Rightarrow> state \<Rightarrow> (js_error + handle) \<times> state" where
  "open_db E s =
     (let this = sdb s in
      case db this of
        Some h \<Rightarrow> (Inr h, s)
      | None \<Rightarrow>
          let dbPath = path_join E [sourceDir this, ''sql'', ''db.sqlite''] in
          if \<not> existsSync E dbPath then (Inl (not_found_error dbPath), s)
          else
            (case getEncryptionKey E (sourceDir this)
                    (js_or (opt_str (key this)) (opt_str (SIGNAL_KEY E))) of
               Inl e \<Rightarrow> (Inl e, s)
             | Inr encKey \<Rightarrow>
                 if \<not> truthy encKey then (Inl (key_not_found_error (sourceDir this)), s)
                 else
                   (case Database_new E dbPath of
                      Some e \<Rightarrow> (Inl (open_failed_error e), s)
                    | None \<Rightarrow>
                        (case run_statements E \<lparr> h_path = dbPath, h_log = [] \<rparr>
                                (open_statements encKey) of
                           (Some e, h) \<Rightarrow>
                             (Inl (open_failed_error e),
                              \<lparr> sdb = this \<lparr> db := Some h \<rparr>,
                                connections = dbPath # connections s \<rparr>)
                         | (None, h) \<Rightarrow>
                             (Inr h,
                              \<lparr> sdb = loadSelfContact E (this \<lparr> db := Some h \<rparr>),
                                connections = dbPath # connections s \<rparr>)))))"

text \<open>\<open>close\<close>, here \<open>close_db\<close>: \<open>this.db.close()\<close> releases the connection, then
  \<open>this.db = null\<close>.\<close>

definition close_db :: "state \<Rightarrow> state" where
  "close_db s =
     (case db (sdb s) of
        None \<Rightarrow> s
      | Some h \<Rightarrow> \<lparr> sdb = (sdb s) \<lparr> db := None \<rparr>,
                    connections = remove1 (h_path h) (connections s) \<rparr>)"

text \<open>
  The display name of a conversation, computed by the same statements in
  \<open>getChatMessages\<close> and \<open>searchChat\<close>: the name column, else the profile name column,
  else a name of the JSON column; an error while reading the JSON column is ignored.
\<close>

definition contactName :: "env \<Rightarrow> conversation_row \<Rightarrow> jsval" where
  "contactName E conversation =
     (let n = js_or (text_col (c_name conversation)) (text_col (c_profileName conversation)) in
      if \<not> truthy n \<and> truthy (text_col (c_json conversation)) then
        (case bind_result (JSON_parse_col E (c_json conversation)) (\<lambda>jsonData.
                bind_result (get_prop jsonData ''name'') (\<lambda>a.
                bind_result (get_prop jsonData ''profileName'') (\<lambda>b.
                bind_result (get_prop jsonData ''groupName'') (\<lambda>c.
                Inr (js_or a (js_or b c)))))) of
           Inl e \<Rightarrow> n
         | Inr v \<Rightarrow> v)
      else n)"

text \<open>
  \<open>getChatMessages(chatName, {limit, offset})\<close>; \<open>limit\<close> and \<open>offset\<close> are \<open>None\<close> when the
  option is absent. Every query reads the tables through the connection; an error of the
  engine there is thrown to the caller as it is. The numbers \<open>limit\<close> and \<open>offset\<close> go into
  the text of the query, where the engine reads them again (\<open>sql_integer\<close>).
\<close>

definition getChatMessages ::
  "env \<Rightarrow> state \<Rightarrow> string \<Rightarrow> js_number option \<Rightarrow> js_number option \<Rightarrow>
     (js_error + formatted_message list) \<times> state" where
  "getChatMessages E s chatName limit offset0 =
     (case open_db E s of
        (Inl e, s') \<Rightarrow> (Inl e, s')
      | (Inr h, s') \<Rightarrow>
          (bind_result (db_read E h) (\<lambda>t.
             let offset = (case offset0 of None \<Rightarrow> 0 | Some off \<Rightarrow> off) in
             case select_conversation t chatName of
               None \<Rightarrow> Inr []
             | Some conversation \<Rightarrow>
                 let name = contactName E conversation;
                     rows = select_messages t (c_id conversation);
                     msgs =
                       (if number_truthy limit
                        then bind_result
                               (sql_integer E (case limit of None \<Rightarrow> 0 | Some l \<Rightarrow> l)) (\<lambda>l.
                             bind_result (sql_integer E offset) (\<lambda>off.
                             Inr (sql_limit l off rows)))
                        else if offset > 0
                        then bind_result (sql_integer E offset) (\<lambda>off.
                             Inr (sql_limit (- 1) off rows))
                        else Inr rows)
                 in bind_result msgs
                      (map_result
                         (\<lambda>msg. formatMessage E (selfServiceId (sdb s')) msg
                                  (js_or name (JStr ''Unknown''))))),
           s'))"

text \<open>\<open>searchChat(chatName, query, {limit})\<close>.\<close>

definition searchChat ::
  "env \<Rightarrow> state \<Rightarrow> string \<Rightarrow> string \<Rightarrow> js_number option \<Rightarrow>
     (js_error + formatted_message list) \<times> state" where
  "searchChat E s chatName query limit =
     (case open_db E s of
        (Inl e, s') \<Rightarrow> (Inl e, s')
      | (Inr h, s') \<Rightarrow>
          (bind_result (db_read E h) (\<lambda>t.
             case select_conversation t chatName of
               None \<Rightarrow> Inr []
             | Some conversation \<Rightarrow>
                 let name = contactName E conversation;
                     rows = select_messages_like t (c_id conversation) (''%'' @ query @ ''%'');
                     msgs =
                       (if number_truthy limit
                        then bind_result
                               (sql_integer E (case limit of None \<Rightarrow> 0 | Some l \<Rightarrow> l)) (\<lambda>l.
                             bind_result rows (\<lambda>hits. Inr (sql_limit l 0 hits)))
                        else rows)
                 in bind_result msgs
                      (map_result
                         (\<lambda>msg. formatMessage E (selfServiceId (sdb s')) msg
                                  (js_or name (JStr ''Unknown''))))),
           s'))"

section \<open>Notions the properties are stated with\<close>

text \<open>The messages of a conversation, in storage order; the conversation contains
  \<open>length (conversation_messages t conv)\<close> messages.\<close>

definition conversation_messages :: "tables \<Rightarrow> conversation_row \<Rightarrow> message_row list" where
  "conversation_messages t conv =
     filter (\<lambda>m. m_conversationId m = Some (c_id conv)) (messages t)"

text \<open>
  The specification's reading of a search: \<open>b\<close> contains \<open>sub\<close> as a literal substring,
  where the ASCII letters match without regard to case and every other character only
  itself. \<open>body_contains\<close> is this reading of the body of a row up to its first NUL
  character.
\<close>

definition contains_ci :: "string \<Rightarrow> string \<Rightarrow> bool" where
  "contains_ci sub b = str_includes (map ascii_lower b) (map ascii_lower sub)"

definition body_contains :: "string \<Rightarrow> message_row \<Rightarrow> bool" where
  "body_contains sub m =
     (case m_body m of None \<Rightarrow> False | Some b \<Rightarrow> contains_ci sub (c_string b))"

definition has_body :: "message_row \<Rightarrow> bool" where
  "has_body m = (m_body m \<noteq> None)"

text \<open>The formatter as \<open>getChatMessages\<close> and \<open>searchChat\<close> call it for the rows of a
  conversation, once the session is open.\<close>

definition format_row :: "env \<Rightarrow> state \<Rightarrow> conversation_row \<Rightarrow> message_row \<Rightarrow> js_error + formatted_message" where
  "format_row E s conv m =
     formatMessage E (selfServiceId (sdb s)) m (js_or (contactName E conv) (JStr ''Unknown''))"

text \<open>The first error of the engine in the \<open>try\<close> block of \<open>open\<close>, if any: of the
  constructor, of a pragma or of the probe.\<close>

definition engine_failure :: "env \<Rightarrow> string \<Rightarrow> jsval \<Rightarrow> js_error option" where
  "engine_failure E dbPath encKey =
     (case Database_new E dbPath of
        Some e \<Rightarrow> Some e
      | None \<Rightarrow> fst (run_statements E \<lparr> h_path = dbPath, h_log = [] \<rparr> (open_statements encKey)))"



text \<open>
  The reference cipher of the key blob, in the words of the specification (the module
  itself only deciphers): PKCS#7 padding to whole blocks, cipher block chaining over a
  block encryption \<open>Enc\<close> from an initialisation vector of 16 spaces, the tag \<open>v10\<close> in
  front, written in hexadecimal.
\<close>

definition pkcs7_pad :: "byte list \<Rightarrow> byte list" where
  "pkcs7_pad p = (let n = 16 - length p mod 16 in p @ replicate n (word_of_nat n))"

fun cbc_encrypt :: "(byte list \<Rightarrow> byte list) \<Rightarrow> byte list \<Rightarrow> byte list list \<Rightarrow> byte list" where
  "cbc_encrypt Enc prev [] = []"
| "cbc_encrypt Enc prev (b # bs) =
     (let c = Enc (xor_bytes b prev) in c @ cbc_encrypt Enc c bs)"

definition hex_digit :: "nat \<Rightarrow> char" where
  "hex_digit n = (if n < 10 then char_of (48 + n) else char_of (87 + n))"

definition hex_encode :: "byte list \<Rightarrow> string" where
  "hex_encode bs = concat (map (\<lambda>b. [hex_digit (unat b div 16), hex_digit (unat b mod 16)]) bs)"

definition key_blob :: "(byte list \<Rightarrow> byte list) \<Rightarrow> byte list \<Rightarrow> string" where
  "key_blob Enc plaintext =
     hex_encode (ascii_bytes ''v10'' @
                 cbc_encrypt Enc (replicate 16 (0x20 :: byte)) (blocks16 (pkcs7_pad plaintext)))"

section \<open>A small installation\<close>

text \<open>
  A data directory \<open>/signal\<close> on Linux whose config file holds a plaintext key, and a
  database with three conversations. Alice has three messages: the second in storage
  order is the newest, has no body (an attachment) and no sender identifier; the third
  carries the identifier of the session owner, though its type tag is \<open>incoming\<close>. Bob has
  one message, with a NUL character in its body. Carol has one message, from the session
  owner, whose JSON column holds the document \<open>null\<close>.
\<close>

definition demo_config_text :: string where
  \<open>demo_config_text = ''{"key":"0f1e2d3c"}''\<close>

definition demo_item_text :: string where
  \<open>demo_item_text = ''{"id":"uuid_id","value":"self-aci"}''\<close>

definition demo_alice :: conversation_row where
  "demo_alice =
     \<lparr> c_id = ''c1'', c_name = Some ''Alice'', c_profileName = None, c_e164 = None,
       c_json = None \<rparr>"

definition demo_m1 :: message_row where
  "demo_m1 =
     \<lparr> m_id = ''m1'', m_conversationId = Some ''c1'', m_timestamp = Some 1700000000000,
       m_sentAt = None, m_source = None, m_sourceServiceId = Some ''alice-aci'',
       m_body = Some ''Hello'', m_json = None, m_hasAttachments = Some 0,
       m_type = Some ''incoming'' \<rparr>"

definition demo_m2 :: message_row where
  "demo_m2 =
     \<lparr> m_id = ''m2'', m_conversationId = Some ''c1'', m_timestamp = Some 1700000120000,
       m_sentAt = None, m_source = None, m_sourceServiceId = None,
       m_body = None, m_json = None, m_hasAttachments = Some 1,
       m_type = Some ''incoming'' \<rparr>"

definition demo_m3 :: message_row where
  "demo_m3 =
     \<lparr> m_id = ''m3'', m_conversationId = Some ''c1'', m_timestamp = Some 1700000060000,
       m_sentAt = None, m_source = None, m_sourceServiceId = Some ''self-aci'',
       m_body = Some ''See you'', m_json = None, m_hasAttachments = Some 0,
       m_type = Some ''incoming'' \<rparr>"

definition demo_bob :: conversation_row where
  "demo_bob =
     \<lparr> c_id = ''c2'', c_name = Some ''Bob'', c_profileName = None, c_e164 = None,
       c_json = None \<rparr>"

definition demo_m4 :: message_row where
  "demo_m4 =
     \<lparr> m_id = ''m4'', m_conversationId = Some ''c2'', m_timestamp = Some 1700000000000,
       m_sentAt = None, m_source = None, m_sourceServiceId = Some ''bob-aci'',
       m_body = Some (''ab'' @ [CHR 0x00] @ ''cd''), m_json = None, m_hasAttachments = Some 0,
       m_type = Some ''incoming'' \<rparr>"

definition demo_carol :: conversation_row where
  "demo_carol =
     \<lparr> c_id = ''c3'', c_name = Some ''Carol'', c_profileName = None, c_e164 = None,
       c_json = None \<rparr>"

definition demo_m5 :: message_row where
  "demo_m5 =
     \<lparr> m_id = ''m5'', m_conversationId = Some ''c3'', m_timestamp = Some 1700000060000,
       m_sentAt = None, m_source = None, m_sourceServiceId = Some ''self-aci'',
       m_body = Some ''Hi'', m_json = Some ''null'', m_hasAttachments = Some 0,
       m_type = Some ''incoming'' \<rparr>"

definition demo_tables :: tables where
  "demo_tables =
     \<lparr> conversations = [demo_alice, demo_bob, demo_carol],
       messages = [demo_m1, demo_m2, demo_m3, demo_m4, demo_m5],
       items = [\<lparr> i_id = ''uuid_id'', i_json = Some demo_item_text \<rparr>] \<rparr>"

definition demo_db_path :: string where
  "demo_db_path = ''/signal/sql/db.sqlite''"

definition demo_handle :: handle where
  "demo_handle = \<lparr> h_path = demo_db_path, h_log = open_statements (JStr ''0f1e2d3c'') \<rparr>"

text \<open>
  The platform of the installation. The JSON parser, the date formatter, the printer of
  whole numbers and the path join are tables of the values of the real ones on the
  arguments that occur; the engine accepts every statement that reads no page of the
  file, the probe \<open>SELECT 1\<close> among them, and reads the tables once the key pragma was run
  with the right key; the block cipher and the key derivation are stand-ins.
\<close>

definition demo_env :: env where
  "demo_env =
     \<lparr> existsSync = (\<lambda>p. p = demo_db_path \<or> p = ''/signal/config.json''),
       readFileSync = (\<lambda>p. if p = ''/signal/config.json'' then Inr demo_config_text
                           else Inl (Exn SystemError ''ENOENT: no such file or directory'')),
       path_join = intersperse ''/'',
       homedir = ''/home/u'',
       os_platform = ''linux'',
       execSync = (\<lambda>c. Inl (Exn Error ''Command failed'')),
       SIGNAL_SOURCE_DIR = None,
       SIGNAL_KEY = None,
       JSON_parse = (\<lambda>doc.
          if doc = demo_config_text then Inr (JObj [(''key'', JStr ''0f1e2d3c'')])
          else if doc = demo_item_text
          then Inr (JObj [(''id'', JStr ''uuid_id''), (''value'', JStr ''self-aci'')])
          else if doc = ''null'' then Inr JNull
          else Inl (Exn SyntaxError ''Unexpected token'')),
       toISOString = (\<lambda>ms.
          if ms = 1700000000000 then Inr ''2023-11-14T22:13:20.000Z''
          else if ms = 1700000060000 then Inr ''2023-11-14T22:14:20.000Z''
          else if ms = 1700000120000 then Inr ''2023-11-14T22:15:20.000Z''
          else Inl (Exn RangeError ''Invalid time value'')),
       printed_integer = (\<lambda>n. if n = 4611686018427387904 then 4611686018427388000 else n),
       Database_new = (\<lambda>p. None),
       db_exec = (\<lambda>h q. None),
       db_read = (\<lambda>h. if key_pragma (JStr ''0f1e2d3c'') \<in> set (h_log h) then Inr demo_tables
                       else Inl (Exn SqliteError ''file is not a database'')),
       pbkdf2Sync = (\<lambda>pw salt iterations keylen digest. replicate keylen 0x5A),
       aes128_decrypt_block = (\<lambda>k b. xor_bytes b k),
       Buffer_toString_utf8 = map (\<lambda>b. char_of (unat b)),
       Buffer_from_nonstring =
         (\<lambda>v. Inl (Exn TypeError ''The first argument must be of type string'')) \<rparr>"

definition demo_state :: state where
  "demo_state =
     \<lparr> sdb = \<lparr> password = None, key = None, db = None, sourceDir = ''/signal'',
               selfServiceId = JNull \<rparr>,
       connections = [] \<rparr>"

definition demo_open_state :: state where
  "demo_open_state =
     \<lparr> sdb = \<lparr> password = None, key = None, db = Some demo_handle, sourceDir = ''/signal'',
               selfServiceId = JStr ''self-aci'' \<rparr>,
       connections = [demo_db_path] \<rparr>"

text \<open>The same installation with no \<open>uuid_id\<close> row in the items table.\<close>

definition anon_tables :: tables where
  "anon_tables = demo_tables \<lparr> items := [] \<rparr>"

definition anon_env :: env where
  "anon_env =
     demo_env \<lparr> db_read := (\<lambda>h. if key_pragma (JStr ''0f1e2d3c'') \<in> set (h_log h)
                                then Inr anon_tables
                                else Inl (Exn SqliteError ''file is not a database'')) \<rparr>"



definition badkey_env :: env where
  "badkey_env =
     demo_env \<lparr> db_exec := (\<lambda>h q. if q = Prepare_get ''SELECT 1''
                                then Some (Exn SqliteError ''file is not a database'') else None) \<rparr>"

text \<open>The state that the failed \<open>open\<close> of the last installation leaves behind.\<close>

definition leaked_state :: state where
  "leaked_state =
     \<lparr> sdb = \<lparr> password = None, key = None,
               db = Some \<lparr> h_path = demo_db_path,
                           h_log = butlast (open_statements (JStr ''0f1e2d3c'')) \<rparr>,
               sourceDir = ''/signal'', selfServiceId = JNull \<rparr>,
       connections = [demo_db_path] \<rparr>"





text \<open>A search string of 49999 letters.\<close>

definition long_query :: string where
  "long_query = replicate 49999 (CHR ''a'')"

text \<open>The instance of the small installation, given the explicit key \<open>not hex!\<close>.\<close>

definition wrongkey_state :: state where
  "wrongkey_state =
     \<lparr> sdb = \<lparr> password = None, key = Some ''not hex!'', db = None, sourceDir = ''/signal'',
               selfServiceId = JNull \<rparr>,
       connections = [] \<rparr>"

text \<open>
  The same installation on macOS: the config file holds an encrypted key, the blob of the
  key \<open>0f1e2d3c\<close> under the stand-in cipher, and the Keychain command prints the password
  followed by a line feed.
\<close>

definition mac_blob :: string where
  "mac_blob = ''7631304a1c4b1f481e49197272727272727272''"



section \<open>Auxiliary facts\<close>

lemma get_prop_defined:
  "v \<noteq> JNull \<Longrightarrow> v \<noteq> JUndefined \<Longrightarrow> \<exists>x. get_prop v k = Inr x"
  by (cases v) auto

lemma get_prop_truthy: "truthy v \<Longrightarrow> \<exists>x. get_prop v k = Inr x"
  by (cases v) auto

lemma get_prop_throws: "isl (get_prop v k) \<longleftrightarrow> v = JNull \<or> v = JUndefined"
  by (cases v) auto

lemma formatMessage_returns:
  "isl (formatMessage E self msg name) \<longleftrightarrow>
     isl (message_date E msg) \<or> jsonLoaded E msg = JNull \<or> jsonLoaded E msg = JUndefined"
proof (cases "message_date E msg")
  case (Inl e)
  then show ?thesis by (simp add: formatMessage_def bind_result_def)
next
  case date: (Inr d)
  show ?thesis
  proof (cases "jsonLoaded E msg = JNull \<or> jsonLoaded E msg = JUndefined")
    case True
    then have "isl (get_prop (jsonLoaded E msg) ''reactions'')"
      by (simp add: get_prop_throws)
    then obtain e where "get_prop (jsonLoaded E msg) ''reactions'' = Inl e"
      by (cases "get_prop (jsonLoaded E msg) ''reactions''") auto
    then show ?thesis
      using date True by (simp add: formatMessage_def bind_result_def Let_def)
  next
    case False
    then have ok: "jsonLoaded E msg \<noteq> JNull" "jsonLoaded E msg \<noteq> JUndefined" by auto
    obtain r where r: "get_prop (jsonLoaded E msg) ''reactions'' = Inr r"
      using get_prop_defined [OF ok] by blast
    obtain q where q: "get_prop (jsonLoaded E msg) ''quote'' = Inr q"
      using get_prop_defined [OF ok] by blast
    obtain st where st: "get_prop (jsonLoaded E msg) ''sticker'' = Inr st"
      using get_prop_defined [OF ok] by blast
    obtain qt where qt: "truthy q \<Longrightarrow> get_prop q ''text'' = Inr qt"
      using get_prop_truthy [of q] by (cases "truthy q") auto
    obtain em where em: "truthy st \<Longrightarrow> get_prop st ''emoji'' = Inr em"
      using get_prop_truthy [of st] by (cases "truthy st") auto
    obtain pk where pk: "truthy st \<Longrightarrow> get_prop st ''packId'' = Inr pk"
      using get_prop_truthy [of st] by (cases "truthy st") auto
    have "\<not> isl (formatMessage E self msg name)"
      using date r q st qt em pk
      by (simp add: formatMessage_def bind_result_def Let_def)
    then show ?thesis using date False by simp
  qed
qed


lemma map_result_all:
  "\<forall>x\<in>set xs. \<not> isl (f x) \<Longrightarrow> map_result f xs = Inr (map (\<lambda>x. projr (f x)) xs)"
  by (induction xs) (auto split: sum.splits)

lemma length_order_by [simp]: "length (order_by_timestamp_desc rows) = length rows"
  by (simp add: order_by_timestamp_desc_def)

lemma set_order_by [simp]: "set (order_by_timestamp_desc rows) = set rows"
  by (simp add: order_by_timestamp_desc_def)

lemma filter_order_by:
  "filter P (order_by_timestamp_desc rows) = order_by_timestamp_desc (filter P rows)"
  by (simp add: order_by_timestamp_desc_def rev_filter [symmetric] filter_sort)

lemma sorted_order_by:
  "sorted_wrt (\<lambda>a b. m_timestamp b \<le> m_timestamp a) (order_by_timestamp_desc rows)"
proof -
  have "sorted (map m_timestamp (sort_key m_timestamp (rev rows)))"
    by (rule sorted_sort_key)
  then have "sorted_wrt (\<lambda>a b. m_timestamp a \<le> m_timestamp b) (sort_key m_timestamp (rev rows))"
    by (simp add: sorted_map)
  then show ?thesis
    by (simp add: order_by_timestamp_desc_def sorted_wrt_rev)
qed

lemma sorted_sql_limit:
  "sorted_wrt P rows \<Longrightarrow> sorted_wrt P (sql_limit l off rows)"
  by (simp add: sql_limit_def Let_def sorted_wrt_drop sorted_wrt_take)

lemma length_sql_limit:
  "0 \<le> l \<Longrightarrow> 0 \<le> off \<Longrightarrow>
   int (length (sql_limit l off rows)) = min l (max 0 (int (length rows) - off))"
  by (auto simp: sql_limit_def Let_def)

lemma length_select_messages:
  "length (select_messages t (c_id conv)) = length (conversation_messages t conv)"
  by (simp add: select_messages_def conversation_messages_def)

lemma set_sql_limit: "set (sql_limit l off rows) \<subseteq> set rows"
  by (auto simp: sql_limit_def Let_def dest: in_set_takeD in_set_dropD)

lemma select_messages_like_filter:
  "utf8_length pat \<le> SQLITE_MAX_LIKE_PATTERN_LENGTH \<Longrightarrow>
   select_messages_like t cid pat = Inr (filter (body_like pat) (select_messages t cid))"
  by (simp add: select_messages_like_def select_messages_def filter_order_by Let_def)

lemma select_messages_like_refused:
  "SQLITE_MAX_LIKE_PATTERN_LENGTH < utf8_length pat \<Longrightarrow>
   filter (\<lambda>m. m_conversationId m = Some cid) (messages t) \<noteq> [] \<Longrightarrow>
   select_messages_like t cid pat = Inl pattern_too_complex"
  by (simp add: select_messages_like_def Let_def)

lemma utf8_length_append [simp]: "utf8_length (a @ b) = utf8_length a + utf8_length b"
  by (simp add: utf8_length_def)

lemma utf8_length_percent [simp]: "utf8_length ''%'' = 1"
  by (simp add: utf8_length_def)

lemma utf8_length_replicate_a: "utf8_length (replicate n (CHR ''a'')) = int n"
  by (induction n) (simp_all add: utf8_length_def)

lemma utf8_length_long_query: "utf8_length long_query = 49999"
  unfolding long_query_def utf8_length_replicate_a by simp

lemma c_string_id: "CHR 0x00 \<notin> set s \<Longrightarrow> c_string s = s"
  by (auto simp: c_string_def takeWhile_eq_all_conv)

lemma sql_integer_safe: "\<bar>n\<bar> < 2 ^ 53 \<Longrightarrow> sql_integer E (of_int n) = Inr n"
  by (simp add: sql_integer_def)

lemma demo_open: "open_db demo_env demo_state = (Inr demo_handle, demo_open_state)"
  by code_simp

lemma demo_read: "db_read demo_env demo_handle = Inr demo_tables"
  by code_simp

lemma demo_found: "select_conversation demo_tables ''Alice'' = Some demo_alice"
  by code_simp

lemma demo_rows: "select_messages demo_tables (c_id demo_alice) = [demo_m2, demo_m3, demo_m1]"
  by code_simp

lemma demo_formats:
  "\<forall>m\<in>set (select_messages demo_tables (c_id demo_alice)). \<not> isl (format_row demo_env demo_open_state demo_alice m)"
  unfolding demo_rows by code_simp

lemma str_includes_iff: "str_includes s sub \<longleftrightarrow> (\<exists>u w. s = u @ sub @ w)"
proof (induction s)
  case Nil
  then show ?case by auto
next
  case (Cons c s)
  show ?case
  proof
    assume "str_includes (c # s) sub"
    then consider "prefix sub (c # s)" | "str_includes s sub" by auto
    then show "\<exists>u w. c # s = u @ sub @ w"
    proof cases
      case 1
      then obtain w where "c # s = sub @ w" by (auto simp: prefix_def)
      then have "c # s = [] @ sub @ w" by simp
      then show ?thesis by blast
    next
      case 2
      then obtain u w where "s = u @ sub @ w" using Cons.IH by blast
      then have "c # s = (c # u) @ sub @ w" by simp
      then show ?thesis by blast
    qed
  next
    assume "\<exists>u w. c # s = u @ sub @ w"
    then obtain u w where e: "c # s = u @ sub @ w" by blast
    show "str_includes (c # s) sub"
    proof (cases u)
      case Nil
      with e have "prefix sub (c # s)" by (auto simp: prefix_def)
      then show ?thesis by simp
    next
      case (Cons a u')
      with e have "s = u' @ sub @ w" by simp
      then have "str_includes s sub" using Cons.IH by blast
      then show ?thesis by simp
    qed
  qed
qed

lemma like_percent:
  "sqlite_like (CHR ''%'' # ps) s \<longleftrightarrow> (\<exists>u r. s = u @ r \<and> sqlite_like ps r)"
proof (induction s)
  case Nil
  then show ?case by simp
next
  case (Cons c cs)
  have "(\<exists>u r. c # cs = u @ r \<and> sqlite_like ps r) \<longleftrightarrow>
        sqlite_like ps (c # cs) \<or> (\<exists>u r. cs = u @ r \<and> sqlite_like ps r)"
    by (auto simp: Cons_eq_append_conv)
  then show ?case using Cons.IH by simp
qed

lemma like_literal:
  "CHR ''%'' \<notin> set q \<Longrightarrow> CHR ''_'' \<notin> set q \<Longrightarrow>
   sqlite_like (q @ ps) s \<longleftrightarrow>
     (\<exists>v r. s = v @ r \<and> map ascii_lower v = map ascii_lower q \<and> sqlite_like ps r)"
proof (induction q arbitrary: s)
  case Nil
  then show ?case by simp
next
  case (Cons a q)
  show ?case
  proof (cases s)
    case Nil
    then show ?thesis using Cons.prems by auto
  next
    case (Cons c cs)
    have a: "a \<noteq> CHR ''%''" "a \<noteq> CHR ''_''"
      using Cons.prems by auto
    have "sqlite_like ((a # q) @ ps) (c # cs) \<longleftrightarrow>
          ascii_lower a = ascii_lower c \<and> sqlite_like (q @ ps) cs"
      using a by simp
    also have "\<dots> \<longleftrightarrow> ascii_lower a = ascii_lower c \<and>
        (\<exists>v r. cs = v @ r \<and> map ascii_lower v = map ascii_lower q \<and> sqlite_like ps r)"
      using Cons.IH [of cs] Cons.prems by simp
    also have "\<dots> \<longleftrightarrow>
        (\<exists>v r. c # cs = v @ r \<and> map ascii_lower v = map ascii_lower (a # q) \<and> sqlite_like ps r)"
    proof
      assume "ascii_lower a = ascii_lower c \<and>
        (\<exists>v r. cs = v @ r \<and> map ascii_lower v = map ascii_lower q \<and> sqlite_like ps r)"
      then obtain v r where "ascii_lower a = ascii_lower c" "cs = v @ r"
        "map ascii_lower v = map ascii_lower q" "sqlite_like ps r" by blast
      then have "c # cs = (c # v) @ r \<and> map ascii_lower (c # v) = map ascii_lower (a # q) \<and>
                 sqlite_like ps r" by simp
      then show "\<exists>v r. c # cs = v @ r \<and> map ascii_lower v = map ascii_lower (a # q) \<and>
                 sqlite_like ps r" by blast
    next
      assume "\<exists>v r. c # cs = v @ r \<and> map ascii_lower v = map ascii_lower (a # q) \<and>
                 sqlite_like ps r"
      then obtain v r where h: "c # cs = v @ r" "map ascii_lower v = map ascii_lower (a # q)"
        "sqlite_like ps r" by blast
      from h(2) obtain x v' where v: "v = x # v'" by (cases v) auto
      with h have "x = c" "cs = v' @ r" "ascii_lower a = ascii_lower c"
        "map ascii_lower v' = map ascii_lower q" by auto
      with h(3) show "ascii_lower a = ascii_lower c \<and>
        (\<exists>v r. cs = v @ r \<and> map ascii_lower v = map ascii_lower q \<and> sqlite_like ps r)"
        by blast
    qed
    finally show ?thesis using Cons by simp
  qed
qed

lemma like_all: "sqlite_like ''%'' s"
  using like_percent [of "[]" s] by auto

lemma like_empty_query: "sqlite_like ''%%'' s"
  using like_percent [of "''%''" s] like_all by auto

lemma map_eq_appendD:
  "map f xs = ys @ zs \<Longrightarrow> \<exists>us vs. xs = us @ vs \<and> map f us = ys \<and> map f vs = zs"
  by (auto simp: map_eq_append_conv)

lemma like_substring:
  assumes "CHR ''%'' \<notin> set q" and "CHR ''_'' \<notin> set q"
  shows "sqlite_like (CHR ''%'' # q @ ''%'') b \<longleftrightarrow> contains_ci q b"
proof -
  have "sqlite_like (CHR ''%'' # q @ ''%'') b \<longleftrightarrow>
        (\<exists>u r. b = u @ r \<and> sqlite_like (q @ ''%'') r)"
    using like_percent [of "q @ ''%''" b] by simp
  also have "\<dots> \<longleftrightarrow> (\<exists>u v w. b = u @ v @ w \<and> map ascii_lower v = map ascii_lower q)"
    using like_literal [OF assms, of "''%''"] like_all by auto
  also have "\<dots> \<longleftrightarrow> (\<exists>u' w'. map ascii_lower b = u' @ map ascii_lower q @ w')"
  proof
    assume "\<exists>u v w. b = u @ v @ w \<and> map ascii_lower v = map ascii_lower q"
    then obtain u v w where "b = u @ v @ w" "map ascii_lower v = map ascii_lower q" by blast
    then have "map ascii_lower b = map ascii_lower u @ map ascii_lower q @ map ascii_lower w"
      by simp
    then show "\<exists>u' w'. map ascii_lower b = u' @ map ascii_lower q @ w'" by blast
  next
    assume "\<exists>u' w'. map ascii_lower b = u' @ map ascii_lower q @ w'"
    then obtain u' w' where e: "map ascii_lower b = u' @ map ascii_lower q @ w'" by blast
    then obtain u r where ur: "b = u @ r" "map ascii_lower r = map ascii_lower q @ w'"
      using map_eq_appendD [of ascii_lower b u' "map ascii_lower q @ w'"] by blast
    then obtain v w where "r = v @ w" "map ascii_lower v = map ascii_lower q"
      using map_eq_appendD [of ascii_lower r "map ascii_lower q" w'] by blast
    with ur show "\<exists>u v w. b = u @ v @ w \<and> map ascii_lower v = map ascii_lower q" by blast
  qed
  finally show ?thesis by (simp add: contains_ci_def str_includes_iff)
qed


lemma body_like_contains:
  assumes "CHR ''%'' \<notin> set q" and "CHR ''_'' \<notin> set q" and "CHR 0x00 \<notin> set q"
  shows "body_like (CHR ''%'' # q @ ''%'') = body_contains q"
proof -
  have "CHR 0x00 \<notin> set (CHR ''%'' # q @ ''%'')"
    using assms(3) by simp
  then have "c_string (CHR ''%'' # q @ ''%'') = CHR ''%'' # q @ ''%''"
    by (rule c_string_id)
  then show ?thesis
    using like_substring [OF assms(1,2)]
    by (auto simp: body_like_def body_contains_def fun_eq_iff split: option.splits)
qed

lemma body_like_empty: "body_like ''%%'' = has_body"
proof -
  have "c_string ''%%'' = ''%%''"
    by (simp add: c_string_def)
  then show ?thesis
    using like_empty_query
    by (auto simp: body_like_def has_body_def fun_eq_iff split: option.splits)
qed

lemma format_row_fun:
  "(\<lambda>msg. formatMessage E (selfServiceId (sdb s')) msg
            (js_or (contactName E conv) (JStr ''Unknown''))) = format_row E s' conv"
  by (simp add: format_row_def fun_eq_iff)

lemma map_result_filter:
  "\<forall>m\<in>set rows. \<not> isl (f m) \<Longrightarrow>
   map_result f (filter P rows) = Inr (map (\<lambda>m. projr (f m)) (filter P rows))"
  by (rule map_result_all) simp

lemma map_result_take_filter:
  "\<forall>m\<in>set rows. \<not> isl (f m) \<Longrightarrow>
   map_result f (take n (filter P rows)) = Inr (map (\<lambda>m. projr (f m)) (take n (filter P rows)))"
  by (rule map_result_all) (auto dest: in_set_takeD)

lemma length_filter_select_messages:
  "length (filter P (select_messages t (c_id conv))) =
   length (filter P (conversation_messages t conv))"
  by (simp add: select_messages_def conversation_messages_def filter_order_by)

lemma run_statements_path: "h_path (snd (run_statements E h qs)) = h_path h"
  by (induction qs arbitrary: h) (auto split: option.splits)

lemma loadSelfContact_db: "db (loadSelfContact E this) = db this"
  by (auto simp: loadSelfContact_def split: option.splits sum.splits)



lemma key_not_found_neq_open_failed: "key_not_found_error d \<noteq> open_failed_error e"
  by (simp add: key_not_found_error_def open_failed_error_def)

lemma open_db_engine:
  assumes "db (sdb s) = None"
    and "dbPath = path_join E [sourceDir (sdb s), ''sql'', ''db.sqlite'']"
    and "existsSync E dbPath"
    and "getEncryptionKey E (sourceDir (sdb s))
           (js_or (opt_str (key (sdb s))) (opt_str (SIGNAL_KEY E))) = Inr k"
    and "truthy k"
  shows "fst (open_db E s) =
           (case engine_failure E dbPath k of
              Some e \<Rightarrow> Inl (open_failed_error e)
            | None \<Rightarrow> Inr (snd (run_statements E \<lparr> h_path = dbPath, h_log = [] \<rparr>
                                 (open_statements k))))"
  using assms
  by (auto simp: open_db_def Let_def engine_failure_def split: option.splits prod.splits)

lemma demo_key:
  "getEncryptionKey demo_env ''/signal'' (js_or (opt_str None) (opt_str None)) = Inr (JStr ''0f1e2d3c'')"
  by code_simp





lemma hex_value_digit: "n < 16 \<Longrightarrow> hex_value (hex_digit n) = Some n"
  by (auto simp: hex_value_def hex_digit_def Let_def)

lemma hex_decode_encode: "hex_decode (hex_encode bs) = bs"
proof (induction bs)
  case Nil
  then show ?case by (simp add: hex_encode_def)
next
  case (Cons b bs)
  have hi: "unat b div 16 < 16"
    using unsigned_less [of b, where 'a = nat] by (simp add: less_mult_imp_div_less)
  have lo: "unat b mod 16 < 16" by simp
  have "word_of_nat (16 * (unat b div 16) + unat b mod 16) = b"
    by simp
  then show ?case
    using Cons hex_value_digit [OF hi] hex_value_digit [OF lo]
    by (simp add: hex_encode_def)
qed

lemma blocks16_Nil [simp]: "blocks16 [] = []"
  by (simp add: blocks16.simps)

lemma blocks16_step: "bs \<noteq> [] \<Longrightarrow> blocks16 bs = take 16 bs # blocks16 (drop 16 bs)"
  by (subst blocks16.simps) simp

lemma step_len:
  assumes "length (bs :: byte list) mod 16 = 0" "bs \<noteq> []"
  shows "16 \<le> length bs" "length (drop 16 bs) mod 16 = 0"
proof -
  have pos: "length bs \<noteq> 0" using assms(2) by simp
  show "16 \<le> length bs" using assms(1) pos by presburger
  have "(length bs - 16) mod 16 = 0" using assms(1) pos by presburger
  then show "length (drop 16 bs) mod 16 = 0" by simp
qed

lemma blocks16_lengths: "length p mod 16 = 0 \<Longrightarrow> \<forall>b\<in>set (blocks16 p). length b = 16"
proof (induction p rule: blocks16.induct)
  case (1 bs)
  show ?case
  proof (cases "bs = []")
    case True
    show ?thesis unfolding True by simp
  next
    case False
    note sl = step_len [OF "1.prems" False]
    have ih: "\<forall>b\<in>set (blocks16 (drop 16 bs)). length b = 16"
      using "1.IH" [OF False sl(2)] .
    have t: "length (take 16 bs) = 16"
      using sl(1) by simp
    show ?thesis
      unfolding blocks16_step [OF False] using ih t by simp
  qed
qed


lemma blocks16_append: "length b = 16 \<Longrightarrow> blocks16 (b @ rest) = b # blocks16 rest"
  by (subst blocks16.simps) auto

lemma concat_blocks16: "concat (blocks16 p) = p"
proof (induction p rule: blocks16.induct)
  case (1 bs)
  show ?case
  proof (cases "bs = []")
    case True
    then show ?thesis by simp
  next
    case False
    have "concat (blocks16 (drop 16 bs)) = drop 16 bs"
      using "1.IH" [OF False] .
    then show ?thesis
      by (simp add: blocks16_step [OF False])
  qed
qed


lemma length_xor_bytes [simp]: "length (xor_bytes a b) = min (length a) (length b)"
  by (simp add: xor_bytes_def)

lemma xor_bytes_cancel: "length a = length b \<Longrightarrow> xor_bytes (xor_bytes a b) b = a"
proof (induction a b rule: list_induct2)
  case Nil
  then show ?case by (simp add: xor_bytes_def)
next
  case (Cons x xs y ys)
  then show ?case by (simp add: xor_bytes_def xor.assoc)
qed

lemma length_cbc_encrypt:
  assumes "\<And>b. length b = 16 \<Longrightarrow> length (Enc b) = 16"
  shows "\<forall>b\<in>set bs. length b = 16 \<Longrightarrow> length prev = 16 \<Longrightarrow>
         length (cbc_encrypt Enc prev bs) = 16 * length bs"
  using assms by (induction bs arbitrary: prev) (auto simp: Let_def)

lemma cbc_roundtrip:
  assumes inv: "\<And>b. length b = 16 \<Longrightarrow> D (Enc b) = b"
    and len: "\<And>b. length b = 16 \<Longrightarrow> length (Enc b) = 16"
  shows "\<forall>b\<in>set bs. length b = 16 \<Longrightarrow> length prev = 16 \<Longrightarrow>
         cbc_decrypt D prev (blocks16 (cbc_encrypt Enc prev bs)) = concat bs"
proof (induction bs arbitrary: prev)
  case Nil
  then show ?case by simp
next
  case (Cons b bs)
  let ?c = "Enc (xor_bytes b prev)"
  have lx: "length (xor_bytes b prev) = 16" using Cons.prems by simp
  have lc: "length ?c = 16" using len [OF lx] .
  have dc: "D ?c = xor_bytes b prev" using inv [OF lx] .
  have "cbc_decrypt D prev (blocks16 (cbc_encrypt Enc prev (b # bs))) =
        xor_bytes (D ?c) prev @ cbc_decrypt D ?c (blocks16 (cbc_encrypt Enc ?c bs))"
    using lc by (simp add: Let_def blocks16_append)
  also have "\<dots> = b @ concat bs"
    using Cons.IH [of ?c] Cons.prems lc dc by (simp add: xor_bytes_cancel)
  finally show ?case by simp
qed

lemma pkcs7_pad_length: "length (pkcs7_pad p) mod 16 = 0"
proof -
  have "length p mod 16 < 16" by simp
  then have "(length p + (16 - length p mod 16)) mod 16 = 0"
    by (metis add_diff_cancel_left' le_add_diff_inverse less_imp_le_nat mod_add_left_eq mod_self)
  then show ?thesis by (simp add: pkcs7_pad_def Let_def)
qed

lemma pkcs7_pad_nonempty: "pkcs7_pad p \<noteq> []"
  by (simp add: pkcs7_pad_def Let_def)

lemma unat_small: "n \<le> 16 \<Longrightarrow> unat (word_of_nat n :: byte) = n"
  by (rule of_nat_inverse) simp_all

lemma pkcs7_unpad_pad: "pkcs7_unpad (pkcs7_pad p) = Inr p"
proof -
  define n where "n = 16 - length p mod 16"
  have n: "0 < n" "n \<le> 16" by (simp_all add: n_def)
  have u: "unat (word_of_nat n :: byte) = n"
    using n by (simp add: unat_small)
  have pad: "pkcs7_pad p = p @ replicate n (word_of_nat n)"
    by (simp add: pkcs7_pad_def n_def Let_def)
  have l: "last (p @ replicate n (word_of_nat n :: byte)) = word_of_nat n"
    using n by simp
  have ne: "p @ replicate n (word_of_nat n :: byte) \<noteq> []"
    using n by simp
  show ?thesis
    unfolding pad pkcs7_unpad_def Let_def l u
    using n ne by simp
qed


lemma length_ascii_v10 [simp]: "length (ascii_bytes ''v10'') = 3"
  by (simp add: ascii_bytes_def)


section \<open>Sender resolution\<close>

text \<open>
  Whenever \<open>formatMessage\<close> returns, it has resolved the sender as the specification says:
  \<open>Me\<close> when the sender service identifier of the row equals the cached identifier of the
  session owner, whatever the type tag of the message; \<open>Me\<close> again when the type tag is
  \<open>outgoing\<close>; and otherwise the contact name it was given. It returns when the date of
  the row can be rendered and the JSON text of the row is not the document \<open>null\<close>
  (\<open>formatMessage_returns\<close>).
\<close>

lemma formatMessage_sender:
  assumes "message_date E msg = Inr d"
    and "jsonLoaded E msg \<noteq> JNull" and "jsonLoaded E msg \<noteq> JUndefined"
  shows "\<exists>r. formatMessage E self msg name = Inr r \<and>
              sender r = (if text_col (m_sourceServiceId msg) = self then JStr ''Me''
                          else if m_type msg = Some ''outgoing'' then JStr ''Me''
                          else name)"
proof -
  obtain r where r: "get_prop (jsonLoaded E msg) ''reactions'' = Inr r"
    using get_prop_defined [OF assms(2,3)] by blast
  obtain q where q: "get_prop (jsonLoaded E msg) ''quote'' = Inr q"
    using get_prop_defined [OF assms(2,3)] by blast
  obtain st where st: "get_prop (jsonLoaded E msg) ''sticker'' = Inr st"
    using get_prop_defined [OF assms(2,3)] by blast
  obtain qt where qt: "truthy q \<Longrightarrow> get_prop q ''text'' = Inr qt"
    using get_prop_truthy [of q] by (cases "truthy q") auto
  obtain em where em: "truthy st \<Longrightarrow> get_prop st ''emoji'' = Inr em"
    using get_prop_truthy [of st] by (cases "truthy st") auto
  obtain pk where pk: "truthy st \<Longrightarrow> get_prop st ''packId'' = Inr pk"
    using get_prop_truthy [of st] by (cases "truthy st") auto
  show ?thesis
    using assms(1) r q st qt em pk
    by (simp add: formatMessage_def bind_result_def Let_def)
qed

text \<open>
  Claim C5 does not hold of the code for every raw message. The sender is resolved, but
  nothing is returned when a property read that follows it throws: for a row whose JSON
  text is the document \<open>null\<close>, \<open>JSON.parse\<close> returns \<open>null\<close> without an error, \<open>jsonLoaded\<close>
  is \<open>null\<close>, and \<open>jsonLoaded.reactions\<close>, which is outside the \<open>try\<close> block, throws a
  \<open>TypeError\<close>. In the small installation the message of Carol carries the identifier of
  the session owner and the JSON text \<open>null\<close>: \<open>formatMessage\<close> throws instead of returning
  the sender \<open>Me\<close>, and \<open>getChatMessages\<close> throws for the conversation.
\<close>

theorem owner_row_null_payload_throws:
  "selfServiceId (sdb demo_open_state) = JStr ''self-aci'' \<and>
   text_col (m_sourceServiceId demo_m5) = JStr ''self-aci'' \<and>
   m_json demo_m5 = Some ''null'' \<and>
   JSON_parse demo_env ''null'' = Inr JNull \<and>
   formatMessage demo_env (JStr ''self-aci'') demo_m5 (JStr ''Carol'') =
     Inl (Exn TypeError (''Cannot read properties of null (reading '' @ [CHR 0x27] @
                         ''reactions'' @ [CHR 0x27] @ '')'')) \<and>
   map_sum error_class_of (map sender)
     (fst (getChatMessages demo_env demo_state ''Carol'' None None)) = Inl TypeError"
  by code_simp

text \<open>
  Claim C6 does not hold of the code. When the owner's identifier cannot be read,
  \<open>loadSelfContact\<close> raises nothing and \<open>selfServiceId\<close> stays \<open>null\<close>; but then the strict
  equality of \<open>formatMessage\<close> holds for every row whose \<open>sourceServiceId\<close> column is NULL,
  and such a message is attributed to \<open>Me\<close> although its type is not \<open>outgoing\<close>. In the
  installation without a \<open>uuid_id\<close> row, the newest message of Alice (type \<open>incoming\<close>,
  no sender identifier) comes back with the sender \<open>Me\<close>.
\<close>

theorem self_unknown_null_sender_is_Me:
  "select_uuid_item anon_tables = None \<and>
   \<not> isl (fst (open_db anon_env demo_state)) \<and>
   selfServiceId (sdb (snd (open_db anon_env demo_state))) = JNull \<and>
   m_sourceServiceId demo_m2 = None \<and> m_type demo_m2 = Some ''incoming'' \<and>
   map_sum message (map sender)
     (fst (getChatMessages anon_env demo_state ''Alice'' (Some 1) None)) = Inr [JStr ''Me'']"
  by code_simp

section \<open>Paging\<close>

text \<open>
  Claim C1, as amended. In an open session whose tables the engine reads, for a
  conversation found by name that contains \<open>N\<close> messages, all of which can be formatted,
  \<open>getChatMessages\<close> with a limit \<open>k\<close> and an offset \<open>o\<close> that are whole numbers with
  \<open>1 \<le> k < 2^53\<close> and \<open>0 \<le> o < 2^53\<close> returns exactly \<open>min(k, max(0, N - o))\<close> formatted
  messages, the formatted rows \<open>o + 1\<close> to \<open>o + k\<close> of the conversation in non-increasing
  timestamp order; with offset 0 (or none) and no limit it returns exactly \<open>N\<close> formatted
  messages in that order.
\<close>

theorem getChatMessages_page:
  assumes opened: "open_db E s = (Inr h, s')"
    and read: "db_read E h = Inr t"
    and found: "select_conversation t chatName = Some conv"
    and formats: "\<forall>m\<in>set (select_messages t (c_id conv)). \<not> isl (format_row E s' conv m)"
  shows "(0 < k \<and> k < 2 ^ 53 \<and> 0 \<le> off \<and> off < 2 ^ 53 \<longrightarrow>
          (\<exists>rs. getChatMessages E s chatName (Some (of_int k)) (Some (of_int off)) = (Inr rs, s') \<and>
                map_result (format_row E s' conv)
                  (take (nat k) (drop (nat off) (select_messages t (c_id conv)))) = Inr rs \<and>
                int (length rs) =
                  min k (max 0 (int (length (conversation_messages t conv)) - off)) \<and>
                sorted_wrt (\<lambda>a b. m_timestamp b \<le> m_timestamp a)
                  (take (nat k) (drop (nat off) (select_messages t (c_id conv)))))) \<and>
         (\<exists>rs. getChatMessages E s chatName None (Some 0) = (Inr rs, s') \<and>
               getChatMessages E s chatName None None = (Inr rs, s') \<and>
               map_result (format_row E s' conv) (select_messages t (c_id conv)) = Inr rs \<and>
               length rs = length (conversation_messages t conv) \<and>
               sorted_wrt (\<lambda>a b. m_timestamp b \<le> m_timestamp a)
                 (select_messages t (c_id conv)))"
proof -
  let ?f = "format_row E s' conv"
  let ?rows = "select_messages t (c_id conv)"
  have sorted_rows: "sorted_wrt (\<lambda>a b. m_timestamp b \<le> m_timestamp a) ?rows"
    by (simp add: select_messages_def sorted_order_by)
  have all: "map_result ?f ?rows = Inr (map (\<lambda>m. projr (?f m)) ?rows)"
    using formats by (rule map_result_all)
  have paged: "\<exists>rs. getChatMessages E s chatName (Some (of_int k)) (Some (of_int off)) = (Inr rs, s') \<and>
      map_result ?f (take (nat k) (drop (nat off) ?rows)) = Inr rs \<and>
      int (length rs) = min k (max 0 (int (length (conversation_messages t conv)) - off)) \<and>
      sorted_wrt (\<lambda>a b. m_timestamp b \<le> m_timestamp a) (take (nat k) (drop (nat off) ?rows))"
    if k: "0 < k" "k < 2 ^ 53" and off: "0 \<le> off" "off < 2 ^ 53"
  proof -
    let ?page = "sql_limit k off ?rows"
    have page: "?page = take (nat k) (drop (nat off) ?rows)"
      using k by (simp add: sql_limit_def)
    have "\<forall>m\<in>set ?page. \<not> isl (?f m)"
      using formats set_sql_limit [of k off ?rows] by blast
    then have res: "map_result ?f ?page = Inr (map (\<lambda>m. projr (?f m)) ?page)"
      by (rule map_result_all)
    have lim: "sql_integer E (of_int k) = Inr k"
      using k by (intro sql_integer_safe) simp
    have ofs: "sql_integer E (of_int off) = Inr off"
      using off by (intro sql_integer_safe) simp
    have tr: "number_truthy (Some (of_int k))"
      using k by (simp add: number_truthy_def)
    have call: "getChatMessages E s chatName (Some (of_int k)) (Some (of_int off)) =
        (map_result ?f ?page, s')"
      using opened read found tr lim ofs
      by (simp add: getChatMessages_def bind_result_def Let_def format_row_fun)
    have len: "int (length ?page) =
        min k (max 0 (int (length (conversation_messages t conv)) - off))"
      using k off length_sql_limit [of k off ?rows] by (simp add: length_select_messages)
    have srt: "sorted_wrt (\<lambda>a b. m_timestamp b \<le> m_timestamp a) ?page"
      using sorted_rows by (rule sorted_sql_limit)
    show ?thesis
      using call res len srt unfolding page by simp
  qed
  have call0: "getChatMessages E s chatName None (Some 0) = (map_result ?f ?rows, s')"
    using opened read found
    by (simp add: getChatMessages_def bind_result_def number_truthy_def Let_def format_row_fun)
  have callN: "getChatMessages E s chatName None None = (map_result ?f ?rows, s')"
    using opened read found
    by (simp add: getChatMessages_def bind_result_def number_truthy_def Let_def format_row_fun)
  have whole: "\<exists>rs. getChatMessages E s chatName None (Some 0) = (Inr rs, s') \<and>
      getChatMessages E s chatName None None = (Inr rs, s') \<and>
      map_result ?f ?rows = Inr rs \<and>
      length rs = length (conversation_messages t conv) \<and>
      sorted_wrt (\<lambda>a b. m_timestamp b \<le> m_timestamp a) ?rows"
    using call0 callN all sorted_rows by (simp add: length_select_messages)
  show ?thesis
    using paged whole by blast
qed

theorem getChatMessages_page_witness:
  "open_db demo_env demo_state = (Inr demo_handle, demo_open_state) \<and>
   db_read demo_env demo_handle = Inr demo_tables \<and>
   select_conversation demo_tables ''Alice'' = Some demo_alice \<and>
   select_messages demo_tables (c_id demo_alice) = [demo_m2, demo_m3, demo_m1] \<and>
   (\<exists>rs. getChatMessages demo_env demo_state ''Alice'' (Some 2) (Some 2) =
            (Inr rs, demo_open_state) \<and>
         map_result (format_row demo_env demo_open_state demo_alice) [demo_m1] = Inr rs \<and>
         length rs = 1) \<and>
   (\<exists>rs. getChatMessages demo_env demo_state ''Alice'' None None = (Inr rs, demo_open_state) \<and>
         length rs = 3)"
proof -
  note page = getChatMessages_page [OF demo_open demo_read demo_found demo_formats, of 2 2]
  have n: "length (conversation_messages demo_tables demo_alice) = 3"
    by code_simp
  have paged: "\<exists>rs. getChatMessages demo_env demo_state ''Alice'' (Some 2) (Some 2) =
            (Inr rs, demo_open_state) \<and>
         map_result (format_row demo_env demo_open_state demo_alice) [demo_m1] = Inr rs \<and>
         length rs = 1"
    using page by (auto simp: demo_rows n)
  have whole: "\<exists>rs. getChatMessages demo_env demo_state ''Alice'' None None =
            (Inr rs, demo_open_state) \<and> length rs = 3"
    using page by (auto simp: n)
  show ?thesis
    using paged whole demo_open demo_read demo_found demo_rows by simp
qed

text \<open>
  The claim as it was stated fails outside these bounds. The conversation of the small
  installation has three messages. With limit 0, which \<open>if (limit)\<close> takes for an absent
  limit, the method returns all three, not \<open>min(0, max(0, 3 - 0)) = 0\<close> of them; with limit
  5 and offset \<open>-1\<close>, which the engine takes for no offset, it returns three, not
  \<open>min(5, max(0, 3 + 1)) = 4\<close>; and with the limit \<open>1.5\<close>, the limit \<open>2^63\<close> or the offset \<open>0.5\<close>
  the engine rejects the statement and the method throws.
\<close>

theorem getChatMessages_page_counterexample:
  "length (conversation_messages demo_tables demo_alice) = 3 \<and>
   map_sum message length
     (fst (getChatMessages demo_env demo_state ''Alice'' (Some 0) (Some 0))) = Inr 3 \<and>
   min 0 (max 0 (int (length (conversation_messages demo_tables demo_alice)) - 0)) = 0 \<and>
   map_sum message length
     (fst (getChatMessages demo_env demo_state ''Alice'' (Some 5) (Some (- 1)))) = Inr 3 \<and>
   min 5 (max 0 (int (length (conversation_messages demo_tables demo_alice)) - (- 1))) = 4 \<and>
   map_sum message length
     (fst (getChatMessages demo_env demo_state ''Alice'' (Some (3 / 2)) (Some 0))) =
     Inl ''datatype mismatch'' \<and>
   map_sum message length
     (fst (getChatMessages demo_env demo_state ''Alice'' (Some (2 ^ 63)) (Some 0))) =
     Inl ''datatype mismatch'' \<and>
   map_sum message length
     (fst (getChatMessages demo_env demo_state ''Alice'' (Some 1) (Some (1 / 2)))) =
     Inl ''datatype mismatch''"
  by code_simp

section \<open>Search\<close>

text \<open>
  Claim C3, as amended. In an open session whose tables the engine reads, for a
  conversation found by name whose messages can all be formatted, and for a search
  string of at most 49998 bytes of UTF-8 (so that the pattern \<open>%query%\<close> is within the
  50000 bytes the engine accepts), \<open>searchChat\<close> without a limit returns, formatted and in
  the descending timestamp order of \<open>getChatMessages\<close>, exactly those messages of the
  conversation whose body matches the \<open>LIKE\<close> pattern \<open>%query%\<close>, in which a \<open>%\<close> or \<open>_\<close> of the
  query is a wildcard and a NUL ends the pattern; for a query with none of these three
  characters they are exactly the messages whose body, read up to its first NUL
  character, contains the query as a literal substring, ASCII letters compared without
  regard to case and all other characters exactly. Nothing is normalised, stemmed or
  ranked.
\<close>

theorem searchChat_like:
  assumes opened: "open_db E s = (Inr h, s')"
    and read: "db_read E h = Inr t"
    and found: "select_conversation t chatName = Some conv"
    and formats: "\<forall>m\<in>set (select_messages t (c_id conv)). \<not> isl (format_row E s' conv m)"
    and short: "utf8_length query + 2 \<le> SQLITE_MAX_LIKE_PATTERN_LENGTH"
  shows "\<exists>rs. searchChat E s chatName query None = (Inr rs, s') \<and>
              map_result (format_row E s' conv)
                (filter (body_like (''%'' @ query @ ''%'')) (select_messages t (c_id conv)))
                = Inr rs \<and>
              (CHR ''%'' \<notin> set query \<and> CHR ''_'' \<notin> set query \<and> CHR 0x00 \<notin> set query \<longrightarrow>
                 map_result (format_row E s' conv)
                   (filter (body_contains query) (select_messages t (c_id conv))) = Inr rs)"
proof -
  let ?f = "format_row E s' conv"
  let ?rows = "select_messages t (c_id conv)"
  let ?hits = "filter (body_like (''%'' @ query @ ''%'')) ?rows"
  have len: "utf8_length (''%'' @ query @ ''%'') \<le> SQLITE_MAX_LIKE_PATTERN_LENGTH"
    using short by (simp add: utf8_length_def)
  have like: "select_messages_like t (c_id conv) (''%'' @ query @ ''%'') = Inr ?hits"
    using len by (rule select_messages_like_filter)
  have call: "searchChat E s chatName query None = (map_result ?f ?hits, s')"
    using opened read found like
    by (simp add: searchChat_def bind_result_def number_truthy_def Let_def format_row_fun)
  have res: "map_result ?f ?hits = Inr (map (\<lambda>m. projr (?f m)) ?hits)"
    using formats by (rule map_result_filter)
  have lit: "?hits = filter (body_contains query) ?rows"
    if "CHR ''%'' \<notin> set query" "CHR ''_'' \<notin> set query" "CHR 0x00 \<notin> set query"
    using that by (simp add: body_like_contains)
  show ?thesis
    using call res lit by auto
qed

theorem searchChat_like_witness:
  "open_db demo_env demo_state = (Inr demo_handle, demo_open_state) \<and>
   db_read demo_env demo_handle = Inr demo_tables \<and>
   select_conversation demo_tables ''Alice'' = Some demo_alice \<and>
   utf8_length ''see'' + 2 \<le> SQLITE_MAX_LIKE_PATTERN_LENGTH \<and>
   CHR ''%'' \<notin> set ''see'' \<and> CHR ''_'' \<notin> set ''see'' \<and> CHR 0x00 \<notin> set ''see'' \<and>
   filter (body_contains ''see'') (select_messages demo_tables (c_id demo_alice)) = [demo_m3] \<and>
   (\<exists>rs. searchChat demo_env demo_state ''Alice'' ''see'' None = (Inr rs, demo_open_state) \<and>
         map_result (format_row demo_env demo_open_state demo_alice) [demo_m3] = Inr rs)"
proof -
  have short: "utf8_length ''see'' + 2 \<le> SQLITE_MAX_LIKE_PATTERN_LENGTH"
    by (simp add: utf8_length_def SQLITE_MAX_LIKE_PATTERN_LENGTH_def)
  note like = searchChat_like [OF demo_open demo_read demo_found demo_formats short]
  have hits: "filter (body_contains ''see'') (select_messages demo_tables (c_id demo_alice)) = [demo_m3]"
    unfolding demo_rows by code_simp
  have "\<exists>rs. searchChat demo_env demo_state ''Alice'' ''see'' None = (Inr rs, demo_open_state) \<and>
         map_result (format_row demo_env demo_open_state demo_alice) [demo_m3] = Inr rs"
    using like by (auto simp: hits)
  then show ?thesis
    using hits short demo_open demo_read demo_found by simp
qed

text \<open>
  The claim as it was stated fails for each of these queries. The queries \<open>_\<close> and \<open>%\<close>
  return the two messages of Alice that have a body, and neither body contains an
  underscore or a percent sign. The query \<open>o\<close>, NUL, \<open>zzz\<close> returns the message \<open>Hello\<close>, which
  does not contain it: the pattern ends at the NUL. The query \<open>cd\<close> does not return the
  message of Bob, whose body contains \<open>cd\<close> after a NUL. And for a query of 49999 letters,
  the pattern of 50001 bytes is refused by the engine and the method throws.
\<close>

theorem searchChat_like_counterexample:
  "map_sum message (map body) (fst (searchChat demo_env demo_state ''Alice'' ''_'' None)) =
     Inr [JStr ''See you'', JStr ''Hello''] \<and>
   \<not> contains_ci ''_'' ''See you'' \<and> \<not> contains_ci ''_'' ''Hello'' \<and>
   map_sum message (map body) (fst (searchChat demo_env demo_state ''Alice'' ''%'' None)) =
     Inr [JStr ''See you'', JStr ''Hello''] \<and>
   \<not> contains_ci ''%'' ''See you'' \<and> \<not> contains_ci ''%'' ''Hello'' \<and>
   map_sum message (map body)
     (fst (searchChat demo_env demo_state ''Alice'' (''o'' @ [CHR 0x00] @ ''zzz'') None)) =
     Inr [JStr ''Hello''] \<and>
   \<not> contains_ci (''o'' @ [CHR 0x00] @ ''zzz'') ''Hello'' \<and>
   m_body demo_m4 = Some (''ab'' @ [CHR 0x00] @ ''cd'') \<and>
   contains_ci ''cd'' (''ab'' @ [CHR 0x00] @ ''cd'') \<and>
   map_sum message (map body) (fst (searchChat demo_env demo_state ''Bob'' ''cd'' None)) =
     Inr [] \<and>
   map_sum message (map body) (fst (searchChat demo_env demo_state ''Alice'' long_query None)) =
     Inl ''LIKE or GLOB pattern too complex''"
proof -
  have rows: "filter (\<lambda>m. m_conversationId m = Some (c_id demo_alice)) (messages demo_tables) \<noteq> []"
    by code_simp
  have "SQLITE_MAX_LIKE_PATTERN_LENGTH < utf8_length (''%'' @ long_query @ ''%'')"
    unfolding utf8_length_append utf8_length_percent utf8_length_long_query
      SQLITE_MAX_LIKE_PATTERN_LENGTH_def
    by simp
  then have "select_messages_like demo_tables (c_id demo_alice) (''%'' @ long_query @ ''%'') =
      Inl pattern_too_complex"
    using rows by (rule select_messages_like_refused)
  then have long: "map_sum message (map body)
      (fst (searchChat demo_env demo_state ''Alice'' long_query None)) =
      Inl ''LIKE or GLOB pattern too complex''"
    using demo_open demo_read demo_found
    by (simp add: searchChat_def bind_result_def number_truthy_def Let_def
        pattern_too_complex_def del: append.simps)
  have rest: "map_sum message (map body) (fst (searchChat demo_env demo_state ''Alice'' ''_'' None)) =
       Inr [JStr ''See you'', JStr ''Hello''] \<and>
     \<not> contains_ci ''_'' ''See you'' \<and> \<not> contains_ci ''_'' ''Hello'' \<and>
     map_sum message (map body) (fst (searchChat demo_env demo_state ''Alice'' ''%'' None)) =
       Inr [JStr ''See you'', JStr ''Hello''] \<and>
     \<not> contains_ci ''%'' ''See you'' \<and> \<not> contains_ci ''%'' ''Hello'' \<and>
     map_sum message (map body)
       (fst (searchChat demo_env demo_state ''Alice'' (''o'' @ [CHR 0x00] @ ''zzz'') None)) =
       Inr [JStr ''Hello''] \<and>
     \<not> contains_ci (''o'' @ [CHR 0x00] @ ''zzz'') ''Hello'' \<and>
     m_body demo_m4 = Some (''ab'' @ [CHR 0x00] @ ''cd'') \<and>
     contains_ci ''cd'' (''ab'' @ [CHR 0x00] @ ''cd'') \<and>
     map_sum message (map body) (fst (searchChat demo_env demo_state ''Bob'' ''cd'' None)) =
       Inr []"
    by code_simp
  show ?thesis
    using rest long by blast
qed

text \<open>
  Claim C4, as amended. In an open session whose tables the engine reads, for a
  conversation found by name whose messages can all be formatted, \<open>searchChat\<close> with the
  empty query returns, newest first, all messages of the conversation whose body is not
  NULL (the pattern \<open>%%\<close> matches every body, and a NULL body matches no pattern), and with
  a limit \<open>k\<close> that is a whole number with \<open>1 \<le> k < 2^53\<close> the first \<open>k\<close> of them, all if there
  are fewer.
\<close>

theorem searchChat_empty_query:
  assumes opened: "open_db E s = (Inr h, s')"
    and read: "db_read E h = Inr t"
    and found: "select_conversation t chatName = Some conv"
    and formats: "\<forall>m\<in>set (select_messages t (c_id conv)). \<not> isl (format_row E s' conv m)"
  shows "(\<exists>rs. searchChat E s chatName [] None = (Inr rs, s') \<and>
               map_result (format_row E s' conv)
                 (filter has_body (select_messages t (c_id conv))) = Inr rs \<and>
               length rs = length (filter has_body (conversation_messages t conv))) \<and>
         (0 < k \<and> k < 2 ^ 53 \<longrightarrow>
          (\<exists>rs. searchChat E s chatName [] (Some (of_int k)) = (Inr rs, s') \<and>
                map_result (format_row E s' conv)
                  (take (nat k) (filter has_body (select_messages t (c_id conv))))
                  = Inr rs \<and>
                int (length rs) =
                  min k (int (length (filter has_body
                                        (conversation_messages t conv))))))"
proof -
  let ?f = "format_row E s' conv"
  let ?hits = "filter has_body (select_messages t (c_id conv))"
  have len: "utf8_length ''%%'' \<le> SQLITE_MAX_LIKE_PATTERN_LENGTH"
    by (simp add: utf8_length_def SQLITE_MAX_LIKE_PATTERN_LENGTH_def)
  have like: "select_messages_like t (c_id conv) ''%%'' = Inr ?hits"
    using select_messages_like_filter [OF len] by (simp add: body_like_empty)
  have call: "searchChat E s chatName [] None = (map_result ?f ?hits, s')"
    using opened read found like
    by (simp add: searchChat_def bind_result_def number_truthy_def Let_def format_row_fun)
  have res: "map_result ?f ?hits = Inr (map (\<lambda>m. projr (?f m)) ?hits)"
    using formats by (rule map_result_filter)
  have callk: "searchChat E s chatName [] (Some (of_int k)) =
      (map_result ?f (take (nat k) ?hits), s')"
    if k: "0 < k" "k < 2 ^ 53"
  proof -
    have lim: "sql_integer E (of_int k) = Inr k"
      using k by (intro sql_integer_safe) simp
    have tr: "number_truthy (Some (of_int k))"
      using k by (simp add: number_truthy_def)
    show ?thesis
      using opened read found like k(1) tr lim
      by (simp add: searchChat_def bind_result_def Let_def format_row_fun sql_limit_def)
  qed
  have resk: "map_result ?f (take (nat k) ?hits) = Inr (map (\<lambda>m. projr (?f m)) (take (nat k) ?hits))"
    using formats by (rule map_result_take_filter)
  have lenk: "int (length (take (nat k) ?hits)) =
      min k (int (length (filter has_body (conversation_messages t conv))))"
    if "0 < k"
    using that by (simp add: length_filter_select_messages)
  show ?thesis
    using call res callk resk lenk by (simp add: length_filter_select_messages)
qed

theorem searchChat_empty_query_witness:
  "open_db demo_env demo_state = (Inr demo_handle, demo_open_state) \<and>
   db_read demo_env demo_handle = Inr demo_tables \<and>
   select_conversation demo_tables ''Alice'' = Some demo_alice \<and>
   filter has_body (select_messages demo_tables (c_id demo_alice)) = [demo_m3, demo_m1] \<and>
   (\<exists>rs. searchChat demo_env demo_state ''Alice'' [] None = (Inr rs, demo_open_state) \<and>
         length rs = 2) \<and>
   (\<exists>rs. searchChat demo_env demo_state ''Alice'' [] (Some 1) = (Inr rs, demo_open_state) \<and>
         map_result (format_row demo_env demo_open_state demo_alice) [demo_m3] = Inr rs \<and>
         length rs = 1)"
proof -
  note empty = searchChat_empty_query [OF demo_open demo_read demo_found demo_formats, of 1]
  have hits: "filter has_body (select_messages demo_tables (c_id demo_alice))
      = [demo_m3, demo_m1]"
    unfolding demo_rows by code_simp
  have n: "length (filter has_body (conversation_messages demo_tables demo_alice)) = 2"
    by code_simp
  have a: "\<exists>rs. searchChat demo_env demo_state ''Alice'' [] None = (Inr rs, demo_open_state) \<and>
         length rs = 2"
    using empty by (auto simp: n)
  have b: "\<exists>rs. searchChat demo_env demo_state ''Alice'' [] (Some 1) = (Inr rs, demo_open_state) \<and>
         map_result (format_row demo_env demo_open_state demo_alice) [demo_m3] = Inr rs \<and>
         length rs = 1"
    using empty by (auto simp: n hits)
  show ?thesis
    using a b hits demo_open demo_read demo_found by simp
qed

text \<open>
  The claim as it was stated fails for a message without a body, and for limits outside
  these bounds. The conversation of the small installation has three messages, one of
  them with a NULL body, and the empty query returns two. With the limit 0, which
  \<open>if (limit)\<close> takes for an absent limit, it returns these two, more than the limit; and
  with the limit \<open>0.5\<close> or \<open>2^63\<close> the engine rejects the statement and the method throws.
\<close>

theorem searchChat_empty_query_counterexample:
  "length (conversation_messages demo_tables demo_alice) = 3 \<and>
   m_body demo_m2 = None \<and>
   map_sum message length (fst (searchChat demo_env demo_state ''Alice'' [] None)) = Inr 2 \<and>
   map_sum message length (fst (searchChat demo_env demo_state ''Alice'' [] (Some 0))) = Inr 2 \<and>
   map_sum message length (fst (searchChat demo_env demo_state ''Alice'' [] (Some (1 / 2)))) =
     Inl ''datatype mismatch'' \<and>
   map_sum message length (fst (searchChat demo_env demo_state ''Alice'' [] (Some (2 ^ 63)))) =
     Inl ''datatype mismatch''"
  by code_simp

section \<open>Key resolution\<close>




text \<open>
  A non-empty key given explicitly, as the constructor parameter or in the environment
  variable \<open>SIGNAL_KEY\<close>, is what key resolution returns, verbatim and unvalidated:
  whatever the string, \<open>open\<close> does not fail with the key-not-found error, the string goes
  between \<open>x'\<close> and \<open>'\<close> into the key pragma, the first statement run on the connection, and
  \<open>open\<close> fails exactly when the constructor of the connection, a pragma or the probe
  fails, with that error wrapped.
\<close>

lemma explicit_key_verbatim:
  assumes nonempty: "k \<noteq> []"
    and given: "key (sdb s) = Some k \<or>
                ((key (sdb s) = None \<or> key (sdb s) = Some []) \<and> SIGNAL_KEY E = Some k)"
    and closed: "db (sdb s) = None"
    and path: "dbPath = path_join E [sourceDir (sdb s), ''sql'', ''db.sqlite'']"
    and ex: "existsSync E dbPath"
  shows "getEncryptionKey E (sourceDir (sdb s))
           (js_or (opt_str (key (sdb s))) (opt_str (SIGNAL_KEY E))) = Inr (JStr k) \<and>
         fst (open_db E s) \<noteq> Inl (key_not_found_error d) \<and>
         fst (open_db E s) =
           (case engine_failure E dbPath (JStr k) of
              Some e \<Rightarrow> Inl (open_failed_error e)
            | None \<Rightarrow> Inr (snd (run_statements E \<lparr> h_path = dbPath, h_log = [] \<rparr>
                                 (open_statements (JStr k))))) \<and>
         hd (open_statements (JStr k)) =
           Pragma (''key = '' @ [CHR 0x22, CHR ''x'', CHR 0x27] @ k @ [CHR 0x27, CHR 0x22])"
proof -
  have prov: "js_or (opt_str (key (sdb s))) (opt_str (SIGNAL_KEY E)) = JStr k"
    using nonempty given by (auto simp: js_or_def opt_str_def)
  have key: "getEncryptionKey E (sourceDir (sdb s))
           (js_or (opt_str (key (sdb s))) (opt_str (SIGNAL_KEY E))) = Inr (JStr k)"
    using nonempty by (simp add: prov getEncryptionKey_def)
  have tr: "truthy (JStr k)" using nonempty by simp
  note eng = open_db_engine [OF closed path ex key tr]
  have "fst (open_db E s) \<noteq> Inl (key_not_found_error d)"
    using eng key_not_found_neq_open_failed [of d]
    by (cases "engine_failure E dbPath (JStr k)") (auto simp: eq_commute [of "open_failed_error _"])
  then show ?thesis
    using key eng by (simp add: open_statements_def key_pragma_def)
qed

text \<open>
  Claim C10 does not hold of the code. The explicit key is returned verbatim and is never
  reported as a missing key, as the claim says; but an ill-formed key does not surface as
  a failure of \<open>open\<close>. The probe of \<open>open\<close>, \<open>SELECT 1\<close>, reads no page of the database file,
  so the engine has nothing to decrypt and accepts it under any key; \<open>loadSelfContact\<close>
  drops the error of its query; and \<open>open\<close> returns the handle. The key is first used by
  the query of the caller, and the error of the engine is thrown from there as it is,
  not wrapped as a failure to open the database. In the small installation, with the
  explicit key \<open>not hex!\<close>, \<open>open\<close> succeeds and \<open>getChatMessages\<close> throws the engine's error.
\<close>

theorem ill_formed_key_passes_open:
  "key (sdb wrongkey_state) = Some ''not hex!'' \<and>
   getEncryptionKey demo_env (sourceDir (sdb wrongkey_state))
     (js_or (opt_str (key (sdb wrongkey_state))) (opt_str (SIGNAL_KEY demo_env))) =
     Inr (JStr ''not hex!'') \<and>
   engine_failure demo_env demo_db_path (JStr ''not hex!'') = None \<and>
   fst (open_db demo_env wrongkey_state) =
     Inr \<lparr> h_path = demo_db_path, h_log = open_statements (JStr ''not hex!'') \<rparr> \<and>
   db_read demo_env \<lparr> h_path = demo_db_path, h_log = open_statements (JStr ''not hex!'') \<rparr> =
     Inl (Exn SqliteError ''file is not a database'') \<and>
   fst (getChatMessages demo_env wrongkey_state ''Alice'' None None) =
     Inl (Exn SqliteError ''file is not a database'')"
  by code_simp

section \<open>Unwrapping the key blob\<close>

text \<open>
  Claim C2. Let the block decryption of the platform invert a block encryption \<open>Enc\<close>
  under the 16-byte key that \<open>pbkdf2Sync\<close> derives from the password with the salt
  \<open>saltysalt\<close>, 1003 iterations and SHA-1, and let the platform decode the bytes
  \<open>plaintext\<close> to the string \<open>t\<close>. Then \<open>decryptKey\<close>, given the password and the blob made
  of the tag \<open>v10\<close> and the CBC encryption, with PKCS#7 padding and an initialisation vector
  of 16 spaces, of \<open>plaintext\<close>, returns exactly \<open>t\<close>. And for every blob whose first three
  bytes are not the tag, \<open>decryptKey\<close> fails with the error that the encrypted key
  does not start with \<open>v10\<close>.
\<close>

theorem decryptKey_unwrap:
  assumes derived: "dk = pbkdf2Sync E secret (ascii_bytes ''saltysalt'') 1003 16 ''sha1''"
    and keylen: "length dk = 16"
    and inv: "\<forall>b. length b = 16 \<longrightarrow> aes128_decrypt_block E dk (Enc b) = b \<and> length (Enc b) = 16"
    and utf8: "Buffer_toString_utf8 E plaintext = t"
  shows "decryptKey E secret (JStr (key_blob Enc plaintext)) = Inr t \<and>
         (take 3 (hex_decode h) \<noteq> ascii_bytes ''v10'' \<longrightarrow>
            decryptKey E other (JStr h) = Inl (Exn Error ''Encrypted key does not start with v10''))"
proof -
  let ?iv = "replicate 16 (0x20 :: byte)"
  let ?blocks = "blocks16 (pkcs7_pad plaintext)"
  let ?ct = "cbc_encrypt Enc ?iv ?blocks"
  have D: "\<And>b. length b = 16 \<Longrightarrow> aes128_decrypt_block E dk (Enc b) = b"
    and L: "\<And>b. length b = 16 \<Longrightarrow> length (Enc b) = 16"
    using inv by auto
  have bl: "\<forall>b\<in>set ?blocks. length b = 16"
    using pkcs7_pad_length by (rule blocks16_lengths)
  have ne: "?blocks \<noteq> []"
    using pkcs7_pad_nonempty [of plaintext] by (simp add: blocks16_step)
  have len: "length ?ct = 16 * length ?blocks"
    using length_cbc_encrypt [of Enc ?blocks ?iv, OF L] bl by simp
  have ct_ne: "?ct \<noteq> []" and ct_mod: "length ?ct mod 16 = 0"
    using len ne by auto
  have rt: "cbc_decrypt (aes128_decrypt_block E dk) ?iv (blocks16 ?ct) = pkcs7_pad plaintext"
    using cbc_roundtrip [of "aes128_decrypt_block E dk" Enc ?blocks ?iv, OF D L] bl
    by (simp add: concat_blocks16)
  have dec: "aes_128_cbc_decipher E dk ?iv ?ct = Inr plaintext"
    using keylen ct_ne ct_mod rt by (simp add: aes_128_cbc_decipher_def pkcs7_unpad_pad)
  have first: "decryptKey E secret (JStr (key_blob Enc plaintext)) = Inr t"
    using dec utf8 derived [symmetric]
    by (simp add: decryptKey_def key_blob_def Buffer_from_hex_def hex_decode_encode
        bind_result_def Let_def)
  have second: "decryptKey E other (JStr h) = Inl (Exn Error ''Encrypted key does not start with v10'')"
    if "take 3 (hex_decode h) \<noteq> ascii_bytes ''v10''"
    using that by (simp add: decryptKey_def Buffer_from_hex_def bind_result_def Let_def)
  show ?thesis
    using first second by blast
qed

theorem decryptKey_unwrap_witness:
  "key_blob (\<lambda>b. xor_bytes b (replicate 16 0x5A)) (ascii_bytes ''0f1e2d3c'') = mac_blob \<and>
   decryptKey demo_env ''c2VjcmV0'' (JStr mac_blob) = Inr ''0f1e2d3c'' \<and>
   take 3 (hex_decode ''7631317272'') = [0x76, 0x31, 0x31] \<and>
   ascii_bytes ''v10'' = [0x76, 0x31, 0x30] \<and>
   decryptKey demo_env ''c2VjcmV0'' (JStr ''7631317272'') =
     Inl (Exn Error ''Encrypted key does not start with v10'')"
proof -
  let ?key = "replicate 16 (0x5A :: byte)"
  have k: "?key = pbkdf2Sync demo_env ''c2VjcmV0'' (ascii_bytes ''saltysalt'') 1003 16 ''sha1''"
    by (simp add: demo_env_def)
  have kl: "length ?key = 16" by simp
  have inv: "\<forall>b. length b = 16 \<longrightarrow>
      aes128_decrypt_block demo_env ?key (xor_bytes b ?key) = b \<and>
      length (xor_bytes b ?key) = 16"
    by (simp add: demo_env_def xor_bytes_cancel)
  have u: "Buffer_toString_utf8 demo_env (ascii_bytes ''0f1e2d3c'') = ''0f1e2d3c''"
    by code_simp
  have blob: "key_blob (\<lambda>b. xor_bytes b ?key) (ascii_bytes ''0f1e2d3c'') = mac_blob"
    by code_simp
  have tag: "take 3 (hex_decode ''7631317272'') = [0x76, 0x31, 0x31]"
    "ascii_bytes ''v10'' = [0x76, 0x31, 0x30]"
    by code_simp+
  have ne: "take 3 (hex_decode ''7631317272'') \<noteq> ascii_bytes ''v10''"
    by code_simp
  note unwrap = decryptKey_unwrap [OF k kl inv u, of "''7631317272''" "''c2VjcmV0''"]
  have a: "decryptKey demo_env ''c2VjcmV0'' (JStr mac_blob) = Inr ''0f1e2d3c''"
    using conjunct1 [OF unwrap] unfolding blob .
  have b: "decryptKey demo_env ''c2VjcmV0'' (JStr ''7631317272'') =
     Inl (Exn Error ''Encrypted key does not start with v10'')"
    using conjunct2 [OF unwrap] ne by blast
  show ?thesis
    by (simp only: a b blob tag)
qed

section \<open>Opening and closing the session\<close>

text \<open>
  Claim C7, as amended. \<open>open\<close> closes nothing on its error paths. When it fails before
  the connection exists (database file absent, key not resolved, constructor of the
  connection failed) the instance holds no handle and no connection was opened; when a
  pragma or the probe fails, the instance keeps the open connection in \<open>this.db\<close>. On
  every exit path of \<open>open\<close>, those and the successful one, a following \<open>close\<close> (the
  request handler calls it in a \<open>finally\<close> block) leaves the instance without a handle
  and releases the connection.
\<close>

theorem open_then_close:
  assumes closed: "db (sdb s) = None"
    and path: "dbPath = path_join E [sourceDir (sdb s), ''sql'', ''db.sqlite'']"
    and outcome: "open_db E s = (r, s')"
  shows "(isl r \<longrightarrow>
          (if existsSync E dbPath \<and>
              (\<exists>k. getEncryptionKey E (sourceDir (sdb s))
                      (js_or (opt_str (key (sdb s))) (opt_str (SIGNAL_KEY E))) = Inr k \<and> truthy k) \<and>
              Database_new E dbPath = None
           then \<exists>h. db (sdb s') = Some h \<and> h_path h = dbPath \<and>
                    connections s' = dbPath # connections s
           else db (sdb s') = None \<and> connections s' = connections s)) \<and>
         db (sdb (close_db s')) = None \<and>
         connections (close_db s') = connections s"
proof -
  let ?key = "getEncryptionKey E (sourceDir (sdb s))
                (js_or (opt_str (key (sdb s))) (opt_str (SIGNAL_KEY E)))"
  show ?thesis
  proof (cases "existsSync E dbPath")
    case False
    then show ?thesis
      using closed path outcome by (auto simp: open_db_def Let_def close_db_def)
  next
    case ex: True
    show ?thesis
    proof (cases ?key)
      case (Inl err)
      then show ?thesis
        using closed path outcome ex by (auto simp: open_db_def Let_def close_db_def)
    next
      case (Inr k)
      show ?thesis
      proof (cases "truthy k")
        case False
        then show ?thesis
          using closed path outcome ex Inr by (auto simp: open_db_def Let_def close_db_def)
      next
        case tr: True
        show ?thesis
        proof (cases "Database_new E dbPath")
          case (Some err)
          then show ?thesis
            using closed path outcome ex Inr tr by (auto simp: open_db_def Let_def close_db_def)
        next
          case None
          obtain e h where run: "run_statements E \<lparr> h_path = dbPath, h_log = [] \<rparr>
              (open_statements k) = (e, h)"
            by (cases "run_statements E \<lparr> h_path = dbPath, h_log = [] \<rparr> (open_statements k)")
          have hp: "h_path h = dbPath"
            using run_statements_path [of E "\<lparr> h_path = dbPath, h_log = [] \<rparr>" "open_statements k"] run
            by simp
          have s': "db (sdb s') = Some h \<and> connections s' = dbPath # connections s"
            using outcome closed path ex Inr tr None run
            by (cases e) (auto simp: open_db_def Let_def loadSelfContact_db)
          show ?thesis
            using ex Inr tr None hp s' by (auto simp: close_db_def)
        qed
      qed
    qed
  qed
qed


theorem open_then_close_witness:
  "db (sdb demo_state) = None \<and>
   open_db badkey_env demo_state =
     (Inl (open_failed_error (Exn SqliteError ''file is not a database'')), leaked_state) \<and>
   (\<exists>h. db (sdb leaked_state) = Some h \<and> h_path h = demo_db_path \<and>
        connections leaked_state = demo_db_path # connections demo_state) \<and>
   db (sdb (close_db leaked_state)) = None \<and>
   connections (close_db leaked_state) = []"
proof -
  have c: "db (sdb demo_state) = None" by code_simp
  have p: "demo_db_path = path_join badkey_env [sourceDir (sdb demo_state), ''sql'', ''db.sqlite'']"
    by code_simp
  have f: "open_db badkey_env demo_state =
     (Inl (open_failed_error (Exn SqliteError ''file is not a database'')), leaked_state)"
    by code_simp
  have e: "existsSync badkey_env demo_db_path" "Database_new badkey_env demo_db_path = None"
    "getEncryptionKey badkey_env (sourceDir (sdb demo_state))
       (js_or (opt_str (key (sdb demo_state))) (opt_str (SIGNAL_KEY badkey_env))) =
     Inr (JStr ''0f1e2d3c'')"
    "connections demo_state = []"
    by code_simp+
  have t: "\<exists>k. getEncryptionKey badkey_env (sourceDir (sdb demo_state))
       (js_or (opt_str (key (sdb demo_state))) (opt_str (SIGNAL_KEY badkey_env))) = Inr k \<and>
       truthy k"
    using e(3) by simp
  show ?thesis
    using open_then_close [OF c p f] c f e t by simp
qed

text \<open>
  The claim as it was stated fails when the probe fails: the instance then still holds
  the handle, and the connection is still open.
\<close>

theorem open_leaves_handle_counterexample:
  "isl (fst (open_db badkey_env demo_state)) \<and>
   db (sdb (snd (open_db badkey_env demo_state))) \<noteq> None \<and>
   connections (snd (open_db badkey_env demo_state)) = [demo_db_path]"
  by code_simp





end
